theory Spec2Isabelle
  imports Main "HOL-Library.Log_Nat"
begin

section \<open>Floating-point arithmetic of the host code\<close>

text \<open>
  \<^verbatim>\<open>render\<close> computes with C++ \<^verbatim>\<open>float\<close> and \<^verbatim>\<open>double\<close>. Both are taken to be the
  IEEE 754 formats binary32 and binary64, rounded to nearest with ties to even, every
  operation rounded to the format of its type. A finite floating-point number is
  modelled by the rational it denotes, and an operation by the exact rational operation
  followed by \<open>fround\<close>. Infinities and NaNs are outside the model: no operation of
  \<^verbatim>\<open>render\<close> overflows on the values treated below.
\<close>

text \<open>\<open>ilog2 x\<close> is the binary exponent of a positive rational: \<open>2\<^sup>e \<le> x < 2\<^sup>e\<^sup>+\<^sup>1\<close>.\<close>

definition ilog2 :: "rat \<Rightarrow> int" where
  "ilog2 x = (if 1 \<le> x then bitlen \<lfloor>x\<rfloor> - 1 else - bitlen (\<lceil>1 / x\<rceil> - 1))"

text \<open>Rounding to the nearest integer, a tie going to the even neighbour.\<close>

definition rne :: "rat \<Rightarrow> int" where
  "rne x = (let f = \<lfloor>x\<rfloor>; r = x - of_int f in
     if r < 1 / 2 then f else if 1 / 2 < r then f + 1 else if even f then f else f + 1)"

text \<open>
  The spacing of the numbers with \<open>p\<close> significant bits around \<open>x\<close>; below the
  smallest normal exponent \<open>emin\<close> the spacing stays that of the subnormal numbers.
\<close>

definition quantum :: "nat \<Rightarrow> int \<Rightarrow> rat \<Rightarrow> rat" where
  "quantum p emin x = 2 powi (max (ilog2 \<bar>x\<bar>) emin - int p + 1)"

definition fround :: "nat \<Rightarrow> int \<Rightarrow> rat \<Rightarrow> rat" where
  "fround p emin x = (if x = 0 then 0 else
     sgn x * of_int (rne (\<bar>x\<bar> / quantum p emin x)) * quantum p emin x)"

definition f32 :: "rat \<Rightarrow> rat" where
  "f32 = fround 24 (- 126)"

definition f64 :: "rat \<Rightarrow> rat" where
  "f64 = fround 53 (- 1022)"

text \<open>
  \<^verbatim>\<open>static_cast<int>\<close> and \<^verbatim>\<open>(int)\<close> of a floating-point value drop the fraction. This
  is the cast of the emitter offset and of the threshold, whose values fit an \<^verbatim>\<open>int\<close>
  whenever the threshold is at most 100000.
\<close>

definition trunc_int :: "rat \<Rightarrow> int" where
  "trunc_int x = (if 0 \<le> x then \<lfloor>x\<rfloor> else \<lceil>x\<rceil>)"

text \<open>
  The same cast where the value may leave the 32 bits of \<^verbatim>\<open>GLsizei\<close>. C++ leaves the
  result undefined then; the conversion instruction of x86-64 yields the smallest
  \<^verbatim>\<open>int\<close>, and that is the value taken here. No theorem below says anything about a
  frame in which this happens.
\<close>

definition cast_GLsizei :: "rat \<Rightarrow> int" where
  "cast_GLsizei x =
     (if - 2147483648 \<le> trunc_int x \<and> trunc_int x \<le> 2147483647 then trunc_int x
      else - 2147483648)"

section \<open>The state of \<^verbatim>\<open>particles.cpp\<close>\<close>

text \<open>
  Globals that are assigned once: \<^verbatim>\<open>static int particle_flow = 4000\<close>, and
  \<^verbatim>\<open>particles_vbo_N = 20000\<close>, the number of particles either buffer holds.
\<close>

definition particle_flow :: int where
  "particle_flow = 4000"

definition particles_vbo_N :: nat where
  "particles_vbo_N = 20000"

definition sizeof_GLfloat :: nat where
  "sizeof_GLfloat = 4"

text \<open>
  The globals that \<^verbatim>\<open>render\<close> reads and writes, together with its function-static
  \<^verbatim>\<open>threshold\<close>, its locals \<^verbatim>\<open>off\<close> and \<^verbatim>\<open>emitter_result\<close> (kept so that a later stage
  and an observer can read them) and the state of the C library's random number generator.
  \<open>particles_vbo i\<close> is the content of the buffer object \<^verbatim>\<open>particles_vbo[i]\<close>, one
  particle (eight floats) per element. \<^verbatim>\<open>GLuint\<close> values are natural numbers; every one of
  them stays below \<open>2\<^sup>3\<^sup>2\<close> (lemma \<open>occupancy_le\<close>), so unsigned wrap-around never happens.
  \<^verbatim>\<open>mc_tri_vbo_N\<close>, a \<^verbatim>\<open>GLsizei\<close>, is an integer that every assignment keeps within 32 bits.
\<close>

record ('p, 'g) globals =
  mc_tri_vbo_N :: int
  particles_vbo :: "nat \<Rightarrow> nat \<Rightarrow> 'p"
  particles_vbo_p :: nat
  particles_vbo_n :: nat
  anim_result :: nat
  threshold :: int
  off :: int
  emitter_result :: nat
  libc_rand :: 'g

text \<open>
  What \<^verbatim>\<open>render\<close> calls and does not define: the C library (\<^verbatim>\<open>RAND_MAX\<close>, \<^verbatim>\<open>srand\<close>,
  \<^verbatim>\<open>rand\<close>, the generator's state made explicit), the HPMC library (the vertices of the
  iso-surface of the shape at elapsed time \<open>t\<close>; the interpolation of the shape
  coefficients from \<open>t\<close> is part of this black box), and the per-primitive bodies of the two
  geometry shaders: \<open>spawn\<close> makes the particle emitted for a triangle, \<open>integrate\<close>
  advances one particle by one time step, \<open>None\<close> when the particle has died.
\<close>

record ('v, 'p, 'g) collaborators =
  RAND_MAX :: int
  srand :: "nat \<Rightarrow> 'g"
  rand :: "'g \<Rightarrow> int \<times> 'g"
  HPMC_vertices :: "rat \<Rightarrow> 'v list"
  spawn :: "'v \<times> 'v \<times> 'v \<Rightarrow> 'p"
  integrate :: "rat \<Rightarrow> rat \<Rightarrow> 'p \<Rightarrow> 'p option"

text \<open>
  \<^verbatim>\<open>init\<close>: the triangle buffer holds \<^verbatim>\<open>3*1000\<close> vertices, buffer 0 is current and empty.
  \<^verbatim>\<open>threshold\<close> starts at 500, a generator that was never seeded behaves as after
  \<^verbatim>\<open>srand(1)\<close>, and \<open>mem\<close> is whatever the freshly allocated buffers contain.
\<close>

definition init :: "('v, 'p, 'g) collaborators \<Rightarrow> (nat \<Rightarrow> nat \<Rightarrow> 'p) \<Rightarrow> ('p, 'g) globals" where
  "init E mem = \<lparr>mc_tri_vbo_N = 3 * 1000, particles_vbo = mem, particles_vbo_p = 0,
     particles_vbo_n = 0, anim_result = 0, threshold = 500, off = 0, emitter_result = 0,
     libc_rand = srand E 1\<rparr>"

section \<open>The stages of \<^verbatim>\<open>render\<close>\<close>

text \<open>Lines 427--434: the reset when \<^verbatim>\<open>t < 1e-6\<close> (a \<^verbatim>\<open>float\<close> against a \<^verbatim>\<open>double\<close> literal).\<close>

definition reset_event ::
  "('v, 'p, 'g) collaborators \<Rightarrow> rat \<Rightarrow> ('p, 'g) globals \<Rightarrow> ('p, 'g) globals" where
  "reset_event E t s =
     (if t < f64 (1 / 1000000)
      then s\<lparr>particles_vbo_n := 0, threshold := 500, particles_vbo_p := 0,
             libc_rand := srand E 42\<rparr>
      else s)"

text \<open>
  Lines 477--491: the triangle buffer grows when the \<open>N\<close> vertices of this frame do not
  fit: \<^verbatim>\<open>mc_tri_vbo_N = static_cast<GLsizei>( 1.1f*static_cast<float>(N) )\<close>. The product
  fits \<^verbatim>\<open>GLsizei\<close> for every \<open>N\<close> up to \<open>1.9 \<sqdot> 10\<^sup>9\<close> (lemma \<open>resize_in_range\<close>); from
  about \<open>1.95 \<sqdot> 10\<^sup>9\<close> on it does not.
\<close>

definition resize_mc_tri_vbo :: "int \<Rightarrow> ('p, 'g) globals \<Rightarrow> ('p, 'g) globals" where
  "resize_mc_tri_vbo N s =
     (if mc_tri_vbo_N s < N
      then s\<lparr>mc_tri_vbo_N := cast_GLsizei (f32 (f32 (11 / 10) * f32 (of_int N)))\<rparr>
      else s)"

text \<open>Line 514: \<^verbatim>\<open>int off = (int)(threshold*(rand()/(RAND_MAX+1.0f) ) )\<close>, all in \<^verbatim>\<open>float\<close>.\<close>

definition emitter_offset :: "int \<Rightarrow> int \<Rightarrow> int \<Rightarrow> int" where
  "emitter_offset rand_max thr r =
     trunc_int (f32 (f32 (of_int thr) * f32 (f32 (of_int r) / f32 (f32 (of_int rand_max) + 1))))"

text \<open>
  The buffer the frame writes, \<^verbatim>\<open>particles_vbo[ (particles_vbo_p+1)%2 ]\<close> (lines 522 and 569),
  and the buffer it reads, \<^verbatim>\<open>particles_vao[ particles_vbo_p ]\<close> (line 574).
\<close>

definition write_slot :: "('p, 'g) globals \<Rightarrow> nat" where
  "write_slot s = (particles_vbo_p s + 1) mod 2"

definition read_slot :: "('p, 'g) globals \<Rightarrow> nat" where
  "read_slot s = particles_vbo_p s"

text \<open>\<^verbatim>\<open>glDrawArrays( GL_TRIANGLES, 0, N )\<close> assembles one triangle from three vertices.\<close>

fun triangles :: "'v list \<Rightarrow> ('v \<times> 'v \<times> 'v) list" where
  "triangles (a # b # c # vs) = (a, b, c) # triangles vs"
| "triangles vs = []"

text \<open>
  Transform feedback into the elements \<open>first, first + 1, \<dots>\<close> of a buffer with room for
  \<open>room\<close> primitives: OpenGL records the primitives in order while they fit, and the
  query \<^verbatim>\<open>GL_TRANSFORM_FEEDBACK_PRIMITIVES_WRITTEN\<close> returns how many were recorded.
\<close>

definition transform_feedback ::
  "nat \<Rightarrow> nat \<Rightarrow> 'p list \<Rightarrow> (nat \<Rightarrow> 'p) \<Rightarrow> nat \<times> (nat \<Rightarrow> 'p)" where
  "transform_feedback first room prims buf =
     (let written = take room prims
      in (length written,
          \<lambda>i. if first \<le> i \<and> i < first + length written then written ! (i - first) else buf i))"

text \<open>Modelled from the spec: the emitter geometry shader
  (\<^verbatim>\<open>resources::particles_emitter_gs_150\<close>) is not among the sources. Section 4.3: for
  triangle index \<open>i\<close> a particle is emitted iff \<open>(i + offset) mod threshold = 0\<close>,
  initialised from the sampled triangle (\<open>spawn\<close>).
\<close>

definition emitter_gs ::
  "('v, 'p, 'g) collaborators \<Rightarrow> int \<Rightarrow> int \<Rightarrow> ('v \<times> 'v \<times> 'v) list \<Rightarrow> 'p list" where
  "emitter_gs E offset thr tris =
     map (\<lambda>(i, tri). spawn E tri)
       (filter (\<lambda>(i, tri). (int i + offset) mod thr = 0) (enumerate 0 tris))"

text \<open>Modelled from the spec: the animation geometry shader
  (\<^verbatim>\<open>resources::particles_anim_gs_150\<close>) is not among the sources. Section 4.4: every
  particle of the active slot is advanced by one step, from the field parameters of the
  frame and \<open>dt\<close> (\<open>integrate\<close>); a particle whose life parameter crosses the death
  threshold is dropped, the others are passed on in order.
\<close>

definition anim_gs ::
  "('v, 'p, 'g) collaborators \<Rightarrow> rat \<Rightarrow> rat \<Rightarrow> 'p list \<Rightarrow> 'p list" where
  "anim_gs E t dt ps = List.map_filter (integrate E t dt) ps"

text \<open>
  Lines 514--539: draw the random offset, bind the whole write buffer
  (\<^verbatim>\<open>glBindBufferBase\<close>; it was allocated with \<^verbatim>\<open>(2+3+3)*particles_vbo_N * sizeof(GLfloat)\<close>
  bytes), run the emitter over the triangles and read back the number of new particles.
\<close>

definition emit_particles ::
  "('v, 'p, 'g) collaborators \<Rightarrow> 'v list \<Rightarrow> ('p, 'g) globals \<Rightarrow> ('p, 'g) globals" where
  "emit_particles E vs s =
     (let (r, g) = rand E (libc_rand s);
          offv = emitter_offset (RAND_MAX E) (threshold s) r;
          stride = 8 * sizeof_GLfloat;
          room = ((2 + 3 + 3) * particles_vbo_N * sizeof_GLfloat) div stride;
          (n, buf) = transform_feedback 0 room
                       (emitter_gs E offv (threshold s) (triangles vs))
                       (particles_vbo s (write_slot s))
      in s\<lparr>libc_rand := g, off := offv, emitter_result := n,
            particles_vbo := (particles_vbo s)(write_slot s := buf)\<rparr>)"

text \<open>
  Line 543: \<^verbatim>\<open>float particles_per_sec = emitter_result/max(1e-5f,dt)\<close>, the measured rate.
\<close>

definition particles_per_sec :: "nat \<Rightarrow> rat \<Rightarrow> rat" where
  "particles_per_sec n dt = f32 (f32 (of_nat n) / max (f32 (1 / 100000)) dt)"

text \<open>
  The rate as the specification writes it, a quotient without rounding:
  \<^verbatim>\<open>rate = emittedCount / max(dt, eps_time)\<close>, with the \<^verbatim>\<open>1e-5f\<close> of the code for
  \<^verbatim>\<open>eps_time\<close>. It is kept apart from \<open>particles_per_sec\<close> to compare the two.
\<close>

definition spec_rate :: "nat \<Rightarrow> rat \<Rightarrow> rat" where
  "spec_rate n dt = of_nat n / max dt (f32 (1 / 100000))"

text \<open>
  Lines 545--550: the threshold is halved below \<^verbatim>\<open>particle_flow-100\<close>, multiplied by
  \<^verbatim>\<open>10.1\<close> above \<^verbatim>\<open>particle_flow+100\<close>; the products are \<^verbatim>\<open>double\<close>s cast to \<^verbatim>\<open>int\<close>.
\<close>

definition adjust_threshold :: "rat \<Rightarrow> ('p, 'g) globals \<Rightarrow> ('p, 'g) globals" where
  "adjust_threshold dt s =
     (if particles_per_sec (emitter_result s) dt < f32 (of_int (particle_flow - 100))
      then s\<lparr>threshold := max 1 (trunc_int (f64 (f64 (1 / 2) * f64 (of_int (threshold s)))))\<rparr>
      else if f32 (of_int (particle_flow + 100)) < particles_per_sec (emitter_result s) dt
      then s\<lparr>threshold :=
              min 100000 (trunc_int (f64 (f64 (101 / 10) * f64 (of_int (threshold s)))))\<rparr>
      else s)"

text \<open>
  \<^verbatim>\<open>glBindBufferRange\<close> with an offset and a size in bytes, given the binding there is.
  OpenGL rejects a size that is not positive (\<^verbatim>\<open>GL_INVALID_VALUE\<close>) and then leaves the
  binding as it was. (It also rejects a range that ends behind the buffer; the range of
  line 568 ends exactly at the end of the buffer.)
\<close>

definition glBindBufferRange :: "nat \<times> nat \<Rightarrow> nat \<Rightarrow> nat \<Rightarrow> nat \<times> nat" where
  "glBindBufferRange bound offset sz = (if sz = 0 then bound else (offset, sz))"

text \<open>
  Lines 568--588: bind the part of the write buffer behind the new particles, animate the
  \<^verbatim>\<open>particles_vbo_n\<close> particles of the read buffer, read back how many survived, then
  switch buffers and set the number of particles (a \<^verbatim>\<open>GLuint\<close> sum).

  The emitter never returns more than \<open>particles_vbo_N\<close> (lemma \<open>emit_result_le\<close>), so the
  \<^verbatim>\<open>GLuint\<close> difference in the size does not wrap. When the emitter has filled the buffer
  the size is 0, the call is rejected, and the binding of line 522 stays: the whole write
  buffer, from its first element. The survivors then go over the new particles, and the
  number of particles set at line 588 can exceed what a buffer holds.

  A buffer has \<open>particles_vbo_N\<close> elements. A draw that asks for more fetches behind the end
  of the buffer object, which OpenGL leaves undefined; here the fetch stops at the end of
  the buffer.
\<close>

definition animate_particles ::
  "('v, 'p, 'g) collaborators \<Rightarrow> rat \<Rightarrow> rat \<Rightarrow> ('p, 'g) globals \<Rightarrow> ('p, 'g) globals" where
  "animate_particles E t dt s =
     (let stride = 8 * sizeof_GLfloat;
          base = (0, (2 + 3 + 3) * particles_vbo_N * sizeof_GLfloat);
          (offset, sz) = glBindBufferRange base (stride * emitter_result s)
                             (stride * (particles_vbo_N - emitter_result s));
          previous = map (particles_vbo s (read_slot s))
                       [0..<min (particles_vbo_n s) particles_vbo_N];
          (n, buf) = transform_feedback (offset div stride) (sz div stride)
                       (anim_gs E t dt previous) (particles_vbo s (write_slot s))
      in s\<lparr>particles_vbo := (particles_vbo s)(write_slot s := buf), anim_result := n,
            particles_vbo_p := (particles_vbo_p s + 1) mod 2,
            particles_vbo_n := (n + emitter_result s) mod 2 ^ 32\<rparr>)"

text \<open>
  \<^verbatim>\<open>render\<close> in two halves: everything up to the threshold update (lines 427--550), and the
  animation of the previous frame's particles (lines 552--588). The arguments \<^verbatim>\<open>fps\<close> and
  the matrices only reach the screen, and drawing changes none of the state above: the
  surface pass fills the triangle buffer, which holds all \<open>N\<close> vertices after the resize
  (lemma \<open>resize_ge\<close>, for \<open>N\<close> up to \<open>1.9 \<sqdot> 10\<^sup>9\<close>), and the billboard pass that ends the frame (lines 590--603) draws
  the buffer the frame has just written.
\<close>

definition emission_pass ::
  "('v, 'p, 'g) collaborators \<Rightarrow> rat \<Rightarrow> rat \<Rightarrow> ('p, 'g) globals \<Rightarrow> ('p, 'g) globals" where
  "emission_pass E t dt s =
     (let s1 = reset_event E t s;
          vs = HPMC_vertices E t;
          s2 = resize_mc_tri_vbo (int (length vs)) s1;
          s3 = emit_particles E vs s2
      in adjust_threshold dt s3)"

definition render ::
  "('v, 'p, 'g) collaborators \<Rightarrow> rat \<Rightarrow> rat \<Rightarrow> ('p, 'g) globals \<Rightarrow> ('p, 'g) globals" where
  "render E t dt s = animate_particles E t dt (emission_pass E t dt s)"

text \<open>
  The particles a frame produces, read off the two stages: the new particles that fit
  into the write buffer, and the survivors of the previous frame that fit behind them
  (or, when the new particles have filled the buffer, that fit into the buffer).
\<close>

definition emitted :: "('v, 'p, 'g) collaborators \<Rightarrow> rat \<Rightarrow> ('p, 'g) globals \<Rightarrow> 'p list" where
  "emitted E t s =
     take particles_vbo_N
       (emitter_gs E
          (emitter_offset (RAND_MAX E) (threshold (reset_event E t s))
             (fst (rand E (libc_rand (reset_event E t s)))))
          (threshold (reset_event E t s)) (triangles (HPMC_vertices E t)))"

definition survivors ::
  "('v, 'p, 'g) collaborators \<Rightarrow> rat \<Rightarrow> rat \<Rightarrow> ('p, 'g) globals \<Rightarrow> 'p list" where
  "survivors E t dt s =
     take (if length (emitted E t s) < particles_vbo_N
           then particles_vbo_N - length (emitted E t s) else particles_vbo_N)
       (anim_gs E t dt
          (map (particles_vbo s (read_slot (reset_event E t s)))
             [0..<min (particles_vbo_n (reset_event E t s)) particles_vbo_N]))"

text \<open>The range in which the controller keeps the threshold.\<close>

definition threshold_ok :: "('p, 'g) globals \<Rightarrow> bool" where
  "threshold_ok s \<longleftrightarrow> 1 \<le> threshold s \<and> threshold s \<le> 100000"

text \<open>
  Two states look the same to \<^verbatim>\<open>render\<close> when they agree on the threshold, the current
  buffer, the number of particles, the random number generator and the particles the
  current buffer holds below that number (as far as the buffer reaches).
\<close>

definition same_view :: "('p, 'g) globals \<Rightarrow> ('p, 'g) globals \<Rightarrow> bool" where
  "same_view a b \<longleftrightarrow>
     threshold a = threshold b \<and> particles_vbo_p a = particles_vbo_p b
     \<and> particles_vbo_n a = particles_vbo_n b \<and> libc_rand a = libc_rand b
     \<and> map (particles_vbo a (particles_vbo_p a)) [0..<min (particles_vbo_n a) particles_vbo_N]
         = map (particles_vbo b (particles_vbo_p b)) [0..<min (particles_vbo_n b) particles_vbo_N]"

text \<open>A run is a list of frames, each with its elapsed time \<open>t\<close> and its duration \<open>dt\<close>.\<close>

fun run ::
  "('v, 'p, 'g) collaborators \<Rightarrow> (rat \<times> rat) list \<Rightarrow> ('p, 'g) globals \<Rightarrow> ('p, 'g) globals" where
  "run E [] s = s"
| "run E ((t, dt) # fs) s = run E fs (render E t dt s)"

text \<open>
  What a run shows frame by frame: the threshold the emitter used, the number of emitted
  particles, the number of survivors and the threshold left for the next frame.
\<close>

fun observe ::
  "('v, 'p, 'g) collaborators \<Rightarrow> (rat \<times> rat) list \<Rightarrow> ('p, 'g) globals \<Rightarrow>
     (int \<times> nat \<times> nat \<times> int) list" where
  "observe E [] s = []"
| "observe E ((t, dt) # fs) s =
     (threshold (reset_event E t s), emitter_result (render E t dt s),
      anim_result (render E t dt s), threshold (render E t dt s))
     # observe E fs (render E t dt s)"

text \<open>The states between frames: after \<^verbatim>\<open>init\<close>, and after every call of \<^verbatim>\<open>render\<close>.\<close>

inductive reachable :: "('v, 'p, 'g) collaborators \<Rightarrow> ('p, 'g) globals \<Rightarrow> bool"
  for E :: "('v, 'p, 'g) collaborators" where
  start: "reachable E (init E mem)"
| frame: "reachable E s \<Longrightarrow> reachable E (render E t dt s)"

section \<open>An example environment\<close>

text \<open>
  A small instance on which the theorems are tried: a 31-bit \<^verbatim>\<open>RAND_MAX\<close>, a linear
  congruential generator that hands out its state before it advances, a surface of one
  triangle at time 0 and of \<open>\<lfloor>t\<rfloor>\<close> triangles later, and particles that are their remaining
  lifetime in frames.
\<close>

definition example_env :: "(nat, nat, int) collaborators" where
  "example_env = \<lparr>RAND_MAX = 2147483647, srand = (\<lambda>seed. int seed),
     rand = (\<lambda>g. (g mod 2147483648, (g * 1103515245 + 12345) mod 2147483648)),
     HPMC_vertices = (\<lambda>t. if t = 0 then [0, 0, 0] else replicate (3 * nat \<lfloor>t\<rfloor>) 0),
     spawn = (\<lambda>tri. 2),
     integrate = (\<lambda>t dt p. if p = 0 then None else Some (p - 1))\<rparr>"

definition example_mem :: "nat \<Rightarrow> nat \<Rightarrow> nat" where
  "example_mem = (\<lambda>slot i. 0)"

definition example_start :: "(nat, int) globals" where
  "example_start = init example_env example_mem"

text \<open>The state after eight frames without a triangle, starting from \<open>example_start\<close>.\<close>

definition example_starved :: "(nat, int) globals" where
  "example_starved =
     run example_env
       [(1 / 2, f32 (1 / 60)), (1 / 2, f32 (1 / 60)), (1 / 2, f32 (1 / 60)), (1 / 2, f32 (1 / 60)),
        (1 / 2, f32 (1 / 60)), (1 / 2, f32 (1 / 60)), (1 / 2, f32 (1 / 60)), (1 / 2, f32 (1 / 60))]
       example_start"

text \<open>
  The state one more frame leaves, a frame with one triangle at \<open>t = 1\<close>: with threshold 1
  the triangle emits a particle.
\<close>

definition example_loaded :: "(nat, int) globals" where
  "example_loaded = render example_env 1 (f32 (1 / 60)) example_starved"

section \<open>Properties of the rounding\<close>

lemma rne_lower: "x - 1 / 2 \<le> of_int (rne x)"
  unfolding rne_def Let_def by (simp; linarith)

lemma rne_upper: "of_int (rne x) \<le> x + 1 / 2"
  unfolding rne_def Let_def by (simp; linarith)

lemma rne_ge_int: "of_int j \<le> x \<Longrightarrow> j \<le> rne x"
  unfolding rne_def Let_def by (simp add: le_floor_iff; linarith)

lemma rne_le_int: "x \<le> of_int j \<Longrightarrow> rne x \<le> j"
proof -
  assume a: "x \<le> of_int j"
  have f: "\<lfloor>x\<rfloor> \<le> j" using a by (simp add: floor_le_iff) 
  show ?thesis
  proof (cases "of_int \<lfloor>x\<rfloor> = x")
    case True
    then have "x - of_int \<lfloor>x\<rfloor> = 0" by linarith
    then show ?thesis using f unfolding rne_def Let_def by simp
  next
    case False
    then have "of_int \<lfloor>x\<rfloor> < x" by (simp add: less_le)
    then have "of_int \<lfloor>x\<rfloor> < (of_int j :: rat)" using a by linarith
    then have "\<lfloor>x\<rfloor> + 1 \<le> j" by simp
    then show ?thesis using f by (simp add: rne_def Let_def)
  qed
qed

lemma rne_near: "\<bar>x - of_int j\<bar> < 1 / 2 \<Longrightarrow> rne x = j"
proof -
  assume a: "\<bar>x - of_int j\<bar> < 1 / 2"
  have l: "x - 1 / 2 \<le> of_int (rne x)" by (rule rne_lower)
  have u: "of_int (rne x) \<le> x + 1 / 2" by (rule rne_upper)
  have "(of_int (rne x) :: rat) < of_int j + 1" using a u by linarith
  moreover have "(of_int j :: rat) - 1 < of_int (rne x)" using a l by linarith
  ultimately have "rne x < j + 1" "j - 1 < rne x"
    by (metis of_int_1 of_int_add of_int_less_iff, metis of_int_1 of_int_diff of_int_less_iff)
  then show ?thesis by simp
qed

lemma ilog2_bounds:
  assumes "0 < x"
  shows "2 powi ilog2 x \<le> x" and "x < 2 powi (ilog2 x + 1)"
proof -
  have "2 powi ilog2 x \<le> x \<and> x < 2 powi (ilog2 x + 1)"
  proof (cases "1 \<le> x")
    case True
    define n where "n = \<lfloor>x\<rfloor>"
    have n1: "1 \<le> n" using True by (simp add: n_def le_floor_iff)
    then have n0: "0 < n" by simp
    have b: "2 ^ nat (bitlen n - 1) \<le> n" "n < 2 ^ nat (bitlen n)"
      using bitlen_bounds [OF n0] by simp_all
    have b1: "1 \<le> bitlen n" using n0 bitlen_eq_zero_iff [of n] bitlen_nonneg [of n] by linarith
    have e: "ilog2 x = bitlen n - 1" using True by (simp add: ilog2_def n_def)
    have "(2::rat) powi (bitlen n - 1) = of_int (2 ^ nat (bitlen n - 1))"
      using b1 by (simp add: power_int_nonneg_exp)
    also have "\<dots> \<le> of_int n" using b(1) by (simp only: of_int_le_iff)
    also have "\<dots> \<le> x" by (simp add: n_def)
    finally have lo: "2 powi (bitlen n - 1) \<le> x" .
    have "x < of_int (n + 1)" using floor_correct [of x] by (simp add: n_def)
    also have "\<dots> \<le> of_int (2 ^ nat (bitlen n))" using b(2) by (simp only: of_int_le_iff)
    also have "\<dots> = (2::rat) powi (bitlen n)" using b1 by (simp add: power_int_nonneg_exp)
    finally have "x < 2 powi (bitlen n)" .
    then show ?thesis using lo e by simp
  next
    case False
    define y where "y = 1 / x"
    have y1: "1 < y" using False assms by (simp add: y_def)
    define c where "c = \<lceil>y\<rceil>"
    have c2: "2 \<le> c" using y1 by (simp add: c_def)
    have cy: "of_int (c - 1) < y" "y \<le> of_int c"
      unfolding c_def by (simp_all add: ceiling_correct)
    define b where "b = bitlen (c - 1)"
    have c0: "0 < c - 1" using c2 by simp
    have bb: "2 ^ nat (b - 1) \<le> c - 1" "c - 1 < 2 ^ nat b"
      using bitlen_bounds [OF c0] by (simp_all add: b_def)
    have b1: "1 \<le> b" using c0 bitlen_eq_zero_iff [of "c - 1"] bitlen_nonneg [of "c - 1"]
      unfolding b_def by linarith
    have e: "ilog2 x = - b" using False by (simp add: ilog2_def b_def c_def y_def)
    have "y \<le> of_int c" by (rule cy(2))
    also have "\<dots> \<le> of_int (2 ^ nat b)" using bb(2) by (simp only: of_int_le_iff)
    finally have yu: "y \<le> 2 ^ nat b" by simp
    have "(2::rat) ^ nat (b - 1) = of_int (2 ^ nat (b - 1))" by simp
    also have "\<dots> \<le> of_int (c - 1)" using bb(1) by (simp only: of_int_le_iff)
    also have "\<dots> < y" by (rule cy(1))
    finally have yl: "2 ^ nat (b - 1) < y" .
    have p1: "(2::rat) powi (- b) = 1 / 2 ^ nat b"
      using b1 by (simp add: power_int_def field_simps)
    have p2: "(2::rat) powi (- b + 1) = 1 / 2 ^ nat (b - 1)"
      using b1 by (simp add: power_int_def field_simps nat_diff_distrib)
    have "1 / 2 ^ nat b \<le> x"
      using yu assms by (simp add: y_def field_simps)
    moreover have "x < 1 / 2 ^ nat (b - 1)"
      using yl assms by (simp add: y_def field_simps)
    ultimately show ?thesis using e p1 p2 by simp
  qed
  then show "2 powi ilog2 x \<le> x" and "x < 2 powi (ilog2 x + 1)" by simp_all
qed

lemma quantum_pos: "0 < quantum p emin x"
  by (simp add: quantum_def zero_less_power_int)

lemma fround_pos:
  "0 < x \<Longrightarrow> fround p emin x = of_int (rne (x / quantum p emin x)) * quantum p emin x"
  by (simp add: fround_def)

lemma pow2_int_shift:
  assumes "j \<le> k"
  shows "(2::rat) powi k = of_int (2 ^ nat (k - j)) * 2 powi j"
proof -
  have "(2::rat) powi k = 2 powi ((k - j) + j)" by simp
  also have "\<dots> = 2 powi (k - j) * 2 powi j" by (rule power_int_add) simp
  also have "2 powi (k - j) = (2::rat) ^ nat (k - j)"
    using assms by (simp add: power_int_nonneg_exp)
  finally show ?thesis by simp
qed

lemma below_binade:
  assumes "0 \<le> m" "m < 2 ^ p" "int p + k \<le> e"
  shows "of_int m * 2 powi k < (2::rat) powi e"
proof -
  have "(of_int m :: rat) < of_int (2 ^ p)" using assms(2) by (simp only: of_int_less_iff)
  then have "(of_int m :: rat) < 2 powi int p" by (simp add: power_int_of_nat)
  then have "of_int m * 2 powi k < (2::rat) powi int p * 2 powi k"
    by (simp add: zero_less_power_int)
  also have "\<dots> = 2 powi (int p + k)" by (rule power_int_add [symmetric]) simp
  also have "\<dots> \<le> 2 powi e" using assms(3) by (rule power_int_increasing) simp
  finally show ?thesis .
qed

lemma fround_ge:
  assumes x: "0 < x" and p: "0 < p" and m: "0 \<le> m" "m < 2 ^ p"
    and k: "emin - int p + 1 \<le> k" and le: "of_int m * 2 powi k \<le> x"
  shows "of_int m * 2 powi k \<le> fround p emin x"
proof -
  define e where "e = max (ilog2 x) emin"
  define j where "j = e - int p + 1"
  define q where "q = (2::rat) powi j"
  have q: "quantum p emin x = q" using x by (simp add: quantum_def q_def j_def e_def)
  have q0: "0 < q" by (simp add: q_def zero_less_power_int)
  have fr: "fround p emin x = of_int (rne (x / q)) * q" using fround_pos [OF x] q by simp
  show ?thesis
  proof (cases "j \<le> k")
    case True
    define J where "J = m * 2 ^ nat (k - j)"
    have a: "of_int m * 2 powi k = of_int J * q"
      using pow2_int_shift [OF True] by (simp add: J_def q_def)
    then have "of_int J * q \<le> x" using le by simp
    then have "of_int J \<le> x / q" using q0 by (simp add: field_simps)
    then have "J \<le> rne (x / q)" by (rule rne_ge_int)
    then have "(of_int J :: rat) \<le> of_int (rne (x / q))" by (simp only: of_int_le_iff)
    then have "of_int J * q \<le> of_int (rne (x / q)) * q" using q0 by simp
    then show ?thesis using a fr by simp
  next
    case False
    then have "emin < e" using k by (simp add: j_def)
    then have e: "e = ilog2 x" by (simp add: e_def max_def split: if_splits)
    have xe: "2 powi e \<le> x" using ilog2_bounds(1) [OF x] e by simp
    have "int p + k \<le> e" using False by (simp add: j_def)
    then have lt: "of_int m * 2 powi k < (2::rat) powi e" using m by (intro below_binade)
    have "j \<le> e" using p by (simp add: j_def)
    then have "(2::rat) powi e = of_int (2 ^ nat (e - j)) * q"
      unfolding q_def by (rule pow2_int_shift)
    then have ee: "(2::rat) powi e = of_int (2 ^ nat (e - j)) * q" .
    then have "of_int (2 ^ nat (e - j)) * q \<le> x" using xe by simp
    then have "of_int (2 ^ nat (e - j)) \<le> x / q" using q0 by (simp add: field_simps)
    then have "2 ^ nat (e - j) \<le> rne (x / q)" by (rule rne_ge_int)
    then have "(of_int (2 ^ nat (e - j)) :: rat) \<le> of_int (rne (x / q))"
      by (simp only: of_int_le_iff)
    then have "of_int (2 ^ nat (e - j)) * q \<le> of_int (rne (x / q)) * q" using q0 by simp
    then have "2 powi e \<le> fround p emin x" using ee fr by simp
    then show ?thesis using lt by simp
  qed
qed

lemma fround_le:
  assumes x: "0 < x" and m: "0 \<le> m" "m < 2 ^ p"
    and k: "emin - int p + 1 \<le> k" and le: "x \<le> of_int m * 2 powi k"
  shows "fround p emin x \<le> of_int m * 2 powi k"
proof -
  define e where "e = max (ilog2 x) emin"
  define j where "j = e - int p + 1"
  define q where "q = (2::rat) powi j"
  have q: "quantum p emin x = q" using x by (simp add: quantum_def q_def j_def e_def)
  have q0: "0 < q" by (simp add: q_def zero_less_power_int)
  have fr: "fround p emin x = of_int (rne (x / q)) * q" using fround_pos [OF x] q by simp
  show ?thesis
  proof (cases "j \<le> k")
    case True
    define J where "J = m * 2 ^ nat (k - j)"
    have a: "of_int m * 2 powi k = of_int J * q"
      using pow2_int_shift [OF True] by (simp add: J_def q_def)
    then have "x \<le> of_int J * q" using le by simp
    then have "x / q \<le> of_int J" using q0 by (simp add: field_simps)
    then have "rne (x / q) \<le> J" by (rule rne_le_int)
    then have "(of_int (rne (x / q)) :: rat) \<le> of_int J" by (simp only: of_int_le_iff)
    then have "of_int (rne (x / q)) * q \<le> of_int J * q" using q0 by simp
    then show ?thesis using a fr by simp
  next
    case False
    then have "emin < e" using k by (simp add: j_def)
    then have e: "e = ilog2 x" by (simp add: e_def max_def split: if_splits)
    have xe: "2 powi e \<le> x" using ilog2_bounds(1) [OF x] e by simp
    have "int p + k \<le> e" using False by (simp add: j_def)
    then have "of_int m * 2 powi k < (2::rat) powi e" using m by (intro below_binade)
    then show ?thesis using xe le by simp
  qed
qed

lemma fround_exact:
  assumes "0 < p" "0 \<le> m" "m < 2 ^ p" "emin - int p + 1 \<le> k"
  shows "fround p emin (of_int m * 2 powi k) = of_int m * 2 powi k"
proof (cases "m = 0")
  case True
  then show ?thesis by (simp add: fround_def)
next
  case False
  then have "0 < (of_int m :: rat) * 2 powi k" using assms(2) by (simp add: zero_less_power_int)
  then show ?thesis
    using fround_ge [OF _ assms(1,2,3,4), of "of_int m * 2 powi k"]
      fround_le [OF _ assms(2,3,4), of "of_int m * 2 powi k"] by simp
qed

lemma fround_rel:
  assumes x: "0 < x" and e: "emin \<le> ilog2 x"
  shows "x * (1 - 1 / 2 ^ p) \<le> fround p emin x"
proof -
  define q where "q = (2::rat) powi (ilog2 x - int p + 1)"
  have q: "quantum p emin x = q" using x e by (simp add: quantum_def q_def max_def)
  have q0: "0 < q" by (simp add: q_def zero_less_power_int)
  have fr: "fround p emin x = of_int (rne (x / q)) * q" using fround_pos [OF x] q by simp
  have "q = 2 powi (ilog2 x) * 2 powi (1 - int p)"
    unfolding q_def by (subst power_int_add [symmetric]) (simp_all add: algebra_simps)
  also have "(2::rat) powi (1 - int p) = 2 / 2 ^ p"
    by (simp add: power_int_diff power_int_of_nat)
  finally have "q / 2 = 2 powi (ilog2 x) / 2 ^ p" by simp
  also have "\<dots> \<le> x / 2 ^ p"
    using ilog2_bounds(1) [OF x] by (intro divide_right_mono) simp_all
  finally have qle: "q / 2 \<le> x / 2 ^ p" .
  have "x / q - 1 / 2 \<le> of_int (rne (x / q))" by (rule rne_lower)
  then have "(x / q - 1 / 2) * q \<le> of_int (rne (x / q)) * q" using q0 by simp
  moreover have "(x / q - 1 / 2) * q = x - q / 2" using q0 by (simp add: field_simps)
  ultimately have "x - q / 2 \<le> fround p emin x" using fr by simp
  moreover have "x * (1 - 1 / 2 ^ p) = x - x / 2 ^ p" by (simp add: algebra_simps)
  ultimately show ?thesis using qle by linarith
qed

lemma fround_near:
  assumes x: "0 < x" and n: "\<bar>x / quantum p emin x - of_int J\<bar> < 1 / 2"
  shows "fround p emin x = of_int J * quantum p emin x"
  using rne_near [OF n] fround_pos [OF x] by simp

lemma ilog2_nonneg: "1 \<le> x \<Longrightarrow> 0 \<le> ilog2 x"
proof -
  assume a: "1 \<le> x"
  then have "0 < \<lfloor>x\<rfloor>" by (simp add: le_floor_iff)
  then have "1 \<le> bitlen \<lfloor>x\<rfloor>" using bitlen_eq_zero_iff [of "\<lfloor>x\<rfloor>"] bitlen_nonneg [of "\<lfloor>x\<rfloor>"] by linarith
  then show ?thesis using a by (simp add: ilog2_def)
qed

lemma f64_const_half: "f64 (1 / 2) = 1 / 2" by code_simp
lemma f64_const_10_1: "f64 (101 / 10) = 5685794529555251 / 562949953421312" by code_simp
lemma f32_const_1_1: "f32 (11 / 10) = 9227469 / 8388608" by code_simp

lemma f32_int: "0 \<le> n \<Longrightarrow> n < 2 ^ 24 \<Longrightarrow> f32 (of_int n) = of_int n"
  using fround_exact [of 24 n "- 126" 0] by (simp add: f32_def)

lemma f64_int: "0 \<le> n \<Longrightarrow> n < 2 ^ 53 \<Longrightarrow> f64 (of_int n) = of_int n"
  using fround_exact [of 53 n "- 1022" 0] by (simp add: f64_def)

lemma f64_half_int: "0 \<le> n \<Longrightarrow> n < 2 ^ 53 \<Longrightarrow> f64 (of_int n / 2) = of_int n / 2"
  using fround_exact [of 53 n "- 1022" "- 1"] by (simp add: f64_def power_int_minus)

lemma trunc_int_of_int_div: "0 \<le> n \<Longrightarrow> trunc_int (of_int n / 2) = n div 2"
proof -
  assume "0 \<le> n"
  then have "(0::rat) \<le> of_int n / 2" by simp
  moreover have "\<lfloor>(of_int n :: rat) / of_int 2\<rfloor> = n div 2" by (rule floor_divide_of_int_eq)
  ultimately show ?thesis by (simp add: trunc_int_def)
qed

lemma halve_exact:
  assumes "0 \<le> t" "t < 2 ^ 31"
  shows "trunc_int (f64 (f64 (1 / 2) * f64 (of_int t))) = t div 2"
proof -
  have t: "t < 2 ^ 53" using assms(2) by simp
  have eq: "f64 (f64 (1 / 2) * f64 (of_int t)) = of_int t / 2"
    using f64_int [OF assms(1) t] f64_half_int [OF assms(1) t] by (simp add: f64_const_half)
  show ?thesis unfolding eq by (rule trunc_int_of_int_div [OF assms(1)])
qed

lemma grow_exact:
  assumes t1: "1 \<le> t" and t2: "t \<le> 100000"
  shows "trunc_int (f64 (f64 (101 / 10) * f64 (of_int t))) = (101 * t) div 10"
proof -
  define x :: rat where "x = 5685794529555251 / 562949953421312 * of_int t"
  define k where "k = (101 * t) div 10"
  define r where "r = (101 * t) mod 10"
  have t53: "t < 2 ^ 53" using t2 by simp
  have t0: "0 \<le> t" using t1 by simp
  have arg: "f64 (101 / 10) * f64 (of_int t) = x"
    using f64_int [OF t0 t53] by (simp add: f64_const_10_1 x_def)
  have n: "101 * t = 10 * k + r" by (simp add: k_def r_def)
  have r: "0 \<le> r" "r \<le> 9" by (simp_all add: r_def)
  have k: "0 \<le> k" "k \<le> 1010000" using t1 t2 by (simp_all add: k_def) 
  have tq: "(1::rat) \<le> of_int t" "(of_int t :: rat) \<le> 100000"
    using t1 t2 by (simp_all add: of_int_le_iff [symmetric] del: of_int_le_iff)
  have nq: "101 * (of_int t :: rat) = 10 * of_int k + of_int r"
    using n by (metis of_int_add of_int_mult of_int_numeral)
  have xeq: "x = of_int k + of_int r / 10 - of_int t / 2814749767106560"
    using nq by (simp add: x_def field_simps)
  have x0: "0 < x" using tq by (simp add: x_def)
  have val: "f64 x = of_int k \<or> (of_int k \<le> f64 x \<and> f64 x \<le> of_int k + 15 / 16)"
  proof (cases "r = 0")
    case False
    then have r1: "(1::rat) \<le> of_int r" "(of_int r :: rat) \<le> 9"
      using r by (simp_all add: of_int_le_iff [symmetric] del: of_int_le_iff)
    have lo: "of_int k * 2 powi 0 \<le> x" using xeq r1 tq by simp
    have hi: "x \<le> of_int (16 * k + 15) * 2 powi (- 4)"
      using xeq r1 tq by (simp add: power_int_minus field_simps)
    have "of_int k * 2 powi 0 \<le> fround 53 (- 1022) x"
      using k by (intro fround_ge [OF x0 _ _ _ _ lo]) simp_all
    moreover have "fround 53 (- 1022) x \<le> of_int (16 * k + 15) * 2 powi (- 4)"
      using k by (intro fround_le [OF x0 _ _ _ hi]) simp_all
    ultimately show ?thesis by (simp add: f64_def power_int_minus field_simps)
  next
    case True
    define e where "e = ilog2 x"
    have xe: "2 powi e \<le> x" "x < 2 powi (e + 1)"
      using ilog2_bounds [OF x0] by (simp_all add: e_def)
    have xk: "x = of_int k - of_int t / 2814749767106560" using xeq True by simp
    have kt: "(of_int k :: rat) = 101 * of_int t / 10" using nq True by simp
    have x1: "1 \<le> x" "x \<le> 1010000" "10 * of_int t \<le> x" using xk kt tq by simp_all
    have e0: "0 \<le> e" unfolding e_def using x1(1) by (rule ilog2_nonneg)
    have e52: "e \<le> 52"
    proof (rule ccontr)
      assume "\<not> e \<le> 52"
      then have "(2::rat) powi 52 \<le> 2 powi e" by (intro power_int_increasing) simp_all
      then show False using xe(1) x1(2) by simp
    qed
    define q where "q = (2::rat) powi (e - 52)"
    have q: "quantum 53 (- 1022) x = q"
      using x0 e0 by (simp add: quantum_def q_def e_def max_def)
    have q0: "0 < q" by (simp add: q_def zero_less_power_int)
    have one: "1 = of_int (2 ^ nat (52 - e)) * q"
      using pow2_int_shift [of "e - 52" 0] e52 by (simp add: q_def)
    define J where "J = k * 2 ^ nat (52 - e)"
    have Jq: "of_int J * q = of_int k" using one by (simp add: J_def)
    have es: "(2::rat) powi (e + 1) = 2 * 2 powi e" by (simp add: power_int_add)
    have pe: "5 * of_int t < (2::rat) powi e" using xe(2) x1(3) es by simp
    have "4503599627370496 = (2::rat) powi 52" by simp
    also have "\<dots> = of_int (2 ^ nat (52 - e)) * 2 powi e"
      using e52 by (rule pow2_int_shift)
    finally have pw: "(of_int (2 ^ nat (52 - e)) :: rat) = 4503599627370496 / 2 powi e"
      by (simp add: field_simps zero_less_power_int)
    have s2: "1 / q = of_int (2 ^ nat (52 - e))"
      using q0 by (subst one) simp
    have Jk: "of_int J = of_int k * (1 / q)" unfolding s2 by (simp add: J_def)
    have xq: "x / q = x * (1 / q)" by simp
    have s1: "x / q - of_int J = (x - of_int k) * (1 / q)"
      unfolding Jk xq by (simp only: left_diff_distrib)
    have s3: "x - of_int k = - (of_int t / 2814749767106560)" using xk by simp
    have d: "x / q - of_int J = - (8 * of_int t / (5 * 2 powi e))"
      unfolding s1 s3 s2 pw by simp
    have lt: "8 * of_int t / (5 * 2 powi e) < (1::rat) / 2"
      using pe tq by (simp add: field_simps zero_less_power_int)
    have nn: "0 \<le> 8 * of_int t / (5 * (2::rat) powi e)"
      using tq by (simp add: zero_less_power_int less_imp_le)
    have "\<bar>x / q - of_int J\<bar> < 1 / 2"
      unfolding d by (simp only: abs_minus_cancel abs_of_nonneg [OF nn] lt)
    then have "\<bar>x / quantum 53 (- 1022) x - of_int J\<bar> < 1 / 2"
      unfolding q .
    then have "fround 53 (- 1022) x = of_int J * quantum 53 (- 1022) x"
      by (rule fround_near [OF x0])
    then show ?thesis using Jq q by (simp add: f64_def)
  qed
  have "\<lfloor>f64 x\<rfloor> = k"
    using val by (intro floor_unique) auto
  moreover have "0 \<le> f64 x" using val k by auto
  ultimately show ?thesis unfolding arg k_def by (simp add: trunc_int_def)
qed

lemma resize_exact:
  assumes n0: "0 \<le> N" and n1: "N \<le> 900000"
  shows "trunc_int (f32 (f32 (11 / 10) * f32 (of_int N))) = (11 * N) div 10"
proof (cases "N = 0")
  case True
  then show ?thesis by (simp add: f32_def fround_def trunc_int_def)
next
  case False
  define x :: rat where "x = 9227469 / 8388608 * of_int N"
  define k where "k = (11 * N) div 10"
  define r where "r = (11 * N) mod 10"
  have n24: "N < 2 ^ 24" using n1 by simp
  have arg: "f32 (11 / 10) * f32 (of_int N) = x"
    using f32_int [OF n0 n24] by (simp add: f32_const_1_1 x_def)
  have n: "11 * N = 10 * k + r" by (simp add: k_def r_def)
  have r: "0 \<le> r" "r \<le> 9" by (simp_all add: r_def)
  have k: "0 \<le> k" "k \<le> 990000" using n0 n1 by (simp_all add: k_def)
  have nq: "(1::rat) \<le> of_int N" "(of_int N :: rat) \<le> 900000"
    using n0 n1 False by (simp_all add: of_int_le_iff [symmetric] del: of_int_le_iff)
  have rq: "(0::rat) \<le> of_int r" "(of_int r :: rat) \<le> 9"
    using r by (simp_all add: of_int_le_iff [symmetric] del: of_int_le_iff)
  have eq: "11 * (of_int N :: rat) = 10 * of_int k + of_int r"
    using n by (metis of_int_add of_int_mult of_int_numeral)
  have xeq: "x = of_int k + of_int r / 10 + of_int N / 41943040"
    using eq by (simp add: x_def field_simps)
  have x0: "0 < x" using nq by (simp add: x_def)
  have lo: "of_int k * 2 powi 0 \<le> x" using xeq rq nq by simp
  have hi: "x \<le> of_int (16 * k + 15) * 2 powi (- 4)"
    using xeq rq nq by (simp add: power_int_minus field_simps)
  have "of_int k * 2 powi 0 \<le> fround 24 (- 126) x"
    using k by (intro fround_ge [OF x0 _ _ _ _ lo]) simp_all
  moreover have "fround 24 (- 126) x \<le> of_int (16 * k + 15) * 2 powi (- 4)"
    using k by (intro fround_le [OF x0 _ _ _ hi]) simp_all
  ultimately have val: "of_int k \<le> f32 x" "f32 x \<le> of_int k + 15 / 16"
    by (simp_all add: f32_def power_int_minus field_simps)
  have "\<lfloor>f32 x\<rfloor> = k"
    using val by (intro floor_unique) auto
  moreover have "0 \<le> f32 x" using val k by auto
  ultimately show ?thesis unfolding arg k_def by (simp add: trunc_int_def)
qed

lemma f32_rel: "1 \<le> x \<Longrightarrow> x * (16777215 / 16777216) \<le> f32 x"
proof -
  assume a: "1 \<le> x"
  have "x * (1 - 1 / 2 ^ 24) \<le> fround 24 (- 126) x"
    using a ilog2_nonneg [OF a] by (intro fround_rel) simp_all
  then show ?thesis by (simp add: f32_def)
qed

lemma resize_ge:
  assumes n1: "1 \<le> N"
  shows "N \<le> trunc_int (f32 (f32 (11 / 10) * f32 (of_int N)))"
proof -
  define y where "y = f32 (of_int N)"
  define x where "x = 9227469 / 8388608 * y"
  have nq: "(1::rat) \<le> of_int N" using n1 by simp
  have y: "of_int N * (16777215 / 16777216) \<le> y"
    unfolding y_def using nq by (rule f32_rel)
  have x1: "1 \<le> x" using y nq by (simp add: x_def)
  have "of_int N * (16777215 / 16777216) * (9227469 / 8388608) \<le> x"
    using y by (simp add: x_def)
  moreover have "x * (16777215 / 16777216) \<le> f32 x" using x1 by (rule f32_rel)
  ultimately have "of_int N \<le> f32 x" using nq by simp
  then have "N \<le> \<lfloor>f32 x\<rfloor>" "0 \<le> f32 x" using nq by (simp_all add: le_floor_iff)
  then show ?thesis by (simp add: trunc_int_def x_def y_def f32_const_1_1)
qed

lemma resize_in_range:
  assumes n0: "0 \<le> N" and n1: "N \<le> 1900000000"
  shows "cast_GLsizei (f32 (f32 (11 / 10) * f32 (of_int N)))
         = trunc_int (f32 (f32 (11 / 10) * f32 (of_int N)))"
proof (cases "N = 0")
  case True
  then show ?thesis by (simp add: f32_def fround_def trunc_int_def cast_GLsizei_def)
next
  case False
  define y where "y = f32 (of_int N)"
  define x where "x = 9227469 / 8388608 * y"
  have nq: "(1::rat) \<le> of_int N" "(of_int N :: rat) \<le> 1900000000"
    using n0 n1 False by (simp_all add: of_int_le_iff [symmetric] del: of_int_le_iff)
  have n_pos: "(0::rat) < of_int N" using nq by simp
  have ylo: "of_int N * (16777215 / 16777216) \<le> y"
    unfolding y_def using nq(1) by (rule f32_rel)
  have "of_int N \<le> rat_of_int 7421875 * 2 powi 8" using nq by simp
  then have "fround 24 (- 126) (of_int N) \<le> rat_of_int 7421875 * 2 powi 8"
    by (intro fround_le [OF n_pos]) simp_all
  then have yhi: "y \<le> 1900000000" by (simp add: y_def f32_def)
  have x0: "0 < x" using ylo nq by (simp add: x_def)
  have "x \<le> rat_of_int 16777215 * 2 powi 7" using yhi by (simp add: x_def)
  then have "fround 24 (- 126) x \<le> rat_of_int 16777215 * 2 powi 7"
    by (intro fround_le [OF x0]) simp_all
  then have hi: "f32 x \<le> 2147483520" by (simp add: f32_def)
  have x1: "1 \<le> x" using ylo nq by (simp add: x_def)
  have "x * (16777215 / 16777216) \<le> f32 x" using x1 by (rule f32_rel)
  then have lo: "0 \<le> f32 x" using x0 by (simp add: order_trans [rotated] zero_le_mult_iff)
  have "\<lfloor>f32 x\<rfloor> \<le> 2147483520" using hi by (simp add: floor_le_iff)
  moreover have "0 \<le> \<lfloor>f32 x\<rfloor>" using lo by simp
  ultimately have "cast_GLsizei (f32 x) = trunc_int (f32 x)"
    using lo by (simp add: cast_GLsizei_def trunc_int_def)
  then show ?thesis by (simp add: x_def y_def f32_const_1_1)
qed

section \<open>Properties of the stages\<close>

subsection \<open>What each stage changes\<close>

lemma reset_event_fields [simp]:
  "particles_vbo_n (reset_event E t s) = (if t < f64 (1 / 1000000) then 0 else particles_vbo_n s)"
  "threshold (reset_event E t s) = (if t < f64 (1 / 1000000) then 500 else threshold s)"
  "particles_vbo_p (reset_event E t s) = (if t < f64 (1 / 1000000) then 0 else particles_vbo_p s)"
  "libc_rand (reset_event E t s) = (if t < f64 (1 / 1000000) then srand E 42 else libc_rand s)"
  "mc_tri_vbo_N (reset_event E t s) = mc_tri_vbo_N s"
  "particles_vbo (reset_event E t s) = particles_vbo s"
  "anim_result (reset_event E t s) = anim_result s"
  by (simp_all add: reset_event_def)

lemma resize_fields [simp]:
  "particles_vbo_n (resize_mc_tri_vbo N s) = particles_vbo_n s"
  "threshold (resize_mc_tri_vbo N s) = threshold s"
  "particles_vbo_p (resize_mc_tri_vbo N s) = particles_vbo_p s"
  "libc_rand (resize_mc_tri_vbo N s) = libc_rand s"
  "particles_vbo (resize_mc_tri_vbo N s) = particles_vbo s"
  "anim_result (resize_mc_tri_vbo N s) = anim_result s"
  by (simp_all add: resize_mc_tri_vbo_def)

lemma emit_fields [simp]:
  "particles_vbo_n (emit_particles E vs s) = particles_vbo_n s"
  "threshold (emit_particles E vs s) = threshold s"
  "particles_vbo_p (emit_particles E vs s) = particles_vbo_p s"
  "mc_tri_vbo_N (emit_particles E vs s) = mc_tri_vbo_N s"
  "anim_result (emit_particles E vs s) = anim_result s"
  "libc_rand (emit_particles E vs s) = snd (rand E (libc_rand s))"
  "off (emit_particles E vs s) = emitter_offset (RAND_MAX E) (threshold s) (fst (rand E (libc_rand s)))"
  by (simp_all add: emit_particles_def Let_def split_def)

lemma emit_result:
  "emitter_result (emit_particles E vs s) =
     length (take particles_vbo_N (emitter_gs E (off (emit_particles E vs s)) (threshold s) (triangles vs)))"
  by (simp add: emit_particles_def Let_def split_def transform_feedback_def sizeof_GLfloat_def)

lemma emit_vbo:
  "particles_vbo (emit_particles E vs s) =
     (particles_vbo s)(write_slot s :=
        snd (transform_feedback 0 particles_vbo_N
               (emitter_gs E (off (emit_particles E vs s)) (threshold s) (triangles vs))
               (particles_vbo s (write_slot s))))"
  by (simp add: emit_particles_def Let_def split_def sizeof_GLfloat_def)

lemma emit_result_le: "emitter_result (emit_particles E vs s) \<le> particles_vbo_N"
  by (simp add: emit_result)

lemma adjust_fields [simp]:
  "particles_vbo_n (adjust_threshold dt s) = particles_vbo_n s"
  "particles_vbo_p (adjust_threshold dt s) = particles_vbo_p s"
  "mc_tri_vbo_N (adjust_threshold dt s) = mc_tri_vbo_N s"
  "anim_result (adjust_threshold dt s) = anim_result s"
  "libc_rand (adjust_threshold dt s) = libc_rand s"
  "off (adjust_threshold dt s) = off s"
  "emitter_result (adjust_threshold dt s) = emitter_result s"
  "particles_vbo (adjust_threshold dt s) = particles_vbo s"
  by (simp_all add: adjust_threshold_def)

lemma slots_of_stage [simp]:
  "read_slot (adjust_threshold dt s) = read_slot s"
  "write_slot (adjust_threshold dt s) = write_slot s"
  "read_slot (emit_particles E vs s) = read_slot s"
  "write_slot (emit_particles E vs s) = write_slot s"
  "read_slot (resize_mc_tri_vbo N s) = read_slot s"
  "write_slot (resize_mc_tri_vbo N s) = write_slot s"
  by (simp_all add: read_slot_def write_slot_def)

lemma animate_range:
  assumes "e \<le> particles_vbo_N"
  shows "fst (glBindBufferRange (0, (2 + 3 + 3) * particles_vbo_N * sizeof_GLfloat)
                (8 * sizeof_GLfloat * e) (8 * sizeof_GLfloat * (particles_vbo_N - e)))
           div (8 * sizeof_GLfloat) = (if e < particles_vbo_N then e else 0)"
    and "snd (glBindBufferRange (0, (2 + 3 + 3) * particles_vbo_N * sizeof_GLfloat)
                (8 * sizeof_GLfloat * e) (8 * sizeof_GLfloat * (particles_vbo_N - e)))
           div (8 * sizeof_GLfloat)
         = (if e < particles_vbo_N then particles_vbo_N - e else particles_vbo_N)"
  using assms by (simp_all add: glBindBufferRange_def sizeof_GLfloat_def)

lemma animate_fields [simp]:
  "threshold (animate_particles E t dt s) = threshold s"
  "mc_tri_vbo_N (animate_particles E t dt s) = mc_tri_vbo_N s"
  "libc_rand (animate_particles E t dt s) = libc_rand s"
  "off (animate_particles E t dt s) = off s"
  "emitter_result (animate_particles E t dt s) = emitter_result s"
  "particles_vbo_p (animate_particles E t dt s) = (particles_vbo_p s + 1) mod 2"
  by (simp_all add: animate_particles_def Let_def split_def)

lemma animate_result:
  assumes "emitter_result s \<le> particles_vbo_N"
  shows "anim_result (animate_particles E t dt s) =
     length (take (if emitter_result s < particles_vbo_N
                   then particles_vbo_N - emitter_result s else particles_vbo_N)
       (anim_gs E t dt (map (particles_vbo s (read_slot s))
          [0..<min (particles_vbo_n s) particles_vbo_N])))"
  unfolding animate_particles_def Let_def split_def animate_range [OF assms]
  by (simp add: transform_feedback_def)

lemma animate_vbo:
  assumes "emitter_result s \<le> particles_vbo_N"
  shows "particles_vbo (animate_particles E t dt s) =
     (particles_vbo s)(write_slot s :=
        snd (transform_feedback (if emitter_result s < particles_vbo_N then emitter_result s else 0)
               (if emitter_result s < particles_vbo_N
                then particles_vbo_N - emitter_result s else particles_vbo_N)
               (anim_gs E t dt (map (particles_vbo s (read_slot s))
                  [0..<min (particles_vbo_n s) particles_vbo_N]))
               (particles_vbo s (write_slot s))))"
  unfolding animate_particles_def Let_def split_def animate_range [OF assms]
  by simp

lemma animate_result_le:
  assumes "emitter_result s \<le> particles_vbo_N"
  shows "anim_result (animate_particles E t dt s) \<le> particles_vbo_N"
    and "emitter_result s < particles_vbo_N \<Longrightarrow>
           anim_result (animate_particles E t dt s) + emitter_result s \<le> particles_vbo_N"
  by (simp_all add: animate_result [OF assms] min_le_iff_disj)

lemma animate_n:
  assumes "emitter_result s \<le> particles_vbo_N"
  shows "particles_vbo_n (animate_particles E t dt s) =
     anim_result (animate_particles E t dt s) + emitter_result s"
proof -
  have "anim_result (animate_particles E t dt s) + emitter_result s < 2 ^ 32"
    using animate_result_le(1) [OF assms, of E t dt] assms by (simp add: particles_vbo_N_def)
  moreover have "particles_vbo_n (animate_particles E t dt s) =
      (anim_result (animate_particles E t dt s) + emitter_result s) mod 2 ^ 32"
    by (simp add: animate_particles_def Let_def split_def)
  ultimately show ?thesis by simp
qed

subsection \<open>The controller\<close>

lemma flow_bounds:
  "f32 (of_int (particle_flow - 100)) = 3900" "f32 (of_int (particle_flow + 100)) = 4100"
  using f32_int [of 3900] f32_int [of 4100] by (simp_all add: particle_flow_def)

lemma adjust_threshold_law:
  assumes "1 \<le> threshold s" "threshold s \<le> 100000"
  shows "threshold (adjust_threshold dt s) =
     (if particles_per_sec (emitter_result s) dt < 3900 then max 1 (threshold s div 2)
      else if 4100 < particles_per_sec (emitter_result s) dt
           then min 100000 (101 * threshold s div 10)
      else threshold s)"
proof -
  have h: "trunc_int (f64 (f64 (1 / 2) * f64 (of_int (threshold s)))) = threshold s div 2"
    using assms by (intro halve_exact) simp_all
  have g: "trunc_int (f64 (f64 (101 / 10) * f64 (of_int (threshold s)))) = 101 * threshold s div 10"
    using assms by (rule grow_exact)
  show ?thesis unfolding adjust_threshold_def flow_bounds h g by simp
qed

lemma threshold_ok_init: "threshold_ok (init E mem)"
  by (simp add: threshold_ok_def init_def)

lemma threshold_ok_reset: "threshold_ok s \<Longrightarrow> threshold_ok (reset_event E t s)"
  by (simp add: threshold_ok_def)

lemma threshold_ok_resize: "threshold_ok s \<Longrightarrow> threshold_ok (resize_mc_tri_vbo N s)"
  by (simp add: threshold_ok_def)

lemma threshold_ok_emit: "threshold_ok s \<Longrightarrow> threshold_ok (emit_particles E vs s)"
  by (simp add: threshold_ok_def)

lemma threshold_ok_adjust: "threshold_ok s \<Longrightarrow> threshold_ok (adjust_threshold dt s)"
  unfolding threshold_ok_def
  by (simp add: adjust_threshold_law) linarith

lemma threshold_ok_animate: "threshold_ok s \<Longrightarrow> threshold_ok (animate_particles E t dt s)"
  by (simp add: threshold_ok_def)

lemma threshold_ok_emission_pass: "threshold_ok s \<Longrightarrow> threshold_ok (emission_pass E t dt s)"
  unfolding emission_pass_def Let_def
  by (intro threshold_ok_adjust threshold_ok_emit threshold_ok_resize threshold_ok_reset)

lemma threshold_ok_render: "threshold_ok s \<Longrightarrow> threshold_ok (render E t dt s)"
  unfolding render_def by (intro threshold_ok_animate threshold_ok_emission_pass)

lemma threshold_ok_reachable: "reachable E s \<Longrightarrow> threshold_ok s"
  by (induction rule: reachable.induct) (simp_all add: threshold_ok_init threshold_ok_render)

subsection \<open>The state in which a frame animates its particles\<close>

lemma emission_pass_fields [simp]:
  "particles_vbo_p (emission_pass E t dt s) = particles_vbo_p (reset_event E t s)"
  "particles_vbo_n (emission_pass E t dt s) = particles_vbo_n (reset_event E t s)"
  "anim_result (emission_pass E t dt s) = anim_result s"
  "read_slot (emission_pass E t dt s) = read_slot (reset_event E t s)"
  "write_slot (emission_pass E t dt s) = write_slot (reset_event E t s)"
  by (simp_all add: emission_pass_def Let_def read_slot_def write_slot_def)

lemma emission_pass_off:
  "off (emission_pass E t dt s) =
     emitter_offset (RAND_MAX E) (threshold (reset_event E t s))
       (fst (rand E (libc_rand (reset_event E t s))))"
  by (simp add: emission_pass_def Let_def)

lemma emission_pass_rand:
  "libc_rand (emission_pass E t dt s) = snd (rand E (libc_rand (reset_event E t s)))"
  by (simp add: emission_pass_def Let_def)

lemma emission_pass_result:
  "emitter_result (emission_pass E t dt s) =
     length (take particles_vbo_N
       (emitter_gs E (off (emission_pass E t dt s)) (threshold (reset_event E t s))
          (triangles (HPMC_vertices E t))))"
  by (simp add: emission_pass_def Let_def emit_result)

lemma emission_pass_result_le: "emitter_result (emission_pass E t dt s) \<le> particles_vbo_N"
  by (simp add: emission_pass_result)

lemma emission_pass_threshold:
  assumes "threshold_ok s"
  shows "threshold (emission_pass E t dt s) =
     (if particles_per_sec (emitter_result (emission_pass E t dt s)) dt < 3900
      then max 1 (threshold (reset_event E t s) div 2)
      else if 4100 < particles_per_sec (emitter_result (emission_pass E t dt s)) dt
           then min 100000 (101 * threshold (reset_event E t s) div 10)
      else threshold (reset_event E t s))"
proof -
  define s3 where
    "s3 = emit_particles E (HPMC_vertices E t)
            (resize_mc_tri_vbo (int (length (HPMC_vertices E t))) (reset_event E t s))"
  have ok: "threshold_ok s3"
    unfolding s3_def by (intro threshold_ok_emit threshold_ok_resize threshold_ok_reset assms)
  have e: "emission_pass E t dt s = adjust_threshold dt s3"
    by (simp add: emission_pass_def Let_def s3_def)
  have th: "threshold s3 = threshold (reset_event E t s)" by (simp add: s3_def)
  show ?thesis
    unfolding e using ok adjust_threshold_law [of s3 dt]
    by (simp add: threshold_ok_def th)
qed

lemma emission_pass_vbo:
  "particles_vbo (emission_pass E t dt s) =
     (particles_vbo s)(write_slot (reset_event E t s) :=
        snd (transform_feedback 0 particles_vbo_N
               (emitter_gs E (off (emission_pass E t dt s)) (threshold (reset_event E t s))
                  (triangles (HPMC_vertices E t)))
               (particles_vbo s (write_slot (reset_event E t s)))))"
  by (simp add: emission_pass_def Let_def emit_vbo)

lemma slots_differ: "read_slot s \<noteq> write_slot s"
  unfolding read_slot_def write_slot_def by presburger

lemma emission_pass_read_slot:
  "particles_vbo (emission_pass E t dt s) (read_slot (reset_event E t s)) =
     particles_vbo s (read_slot (reset_event E t s))"
  using slots_differ [of "reset_event E t s"] by (simp add: emission_pass_vbo)

lemma emission_pass_mc:
  "mc_tri_vbo_N (emission_pass E t dt s) =
     mc_tri_vbo_N (resize_mc_tri_vbo (int (length (HPMC_vertices E t))) s)"
  by (simp add: emission_pass_def Let_def resize_mc_tri_vbo_def)

subsection \<open>The state a frame leaves\<close>

lemma render_fields [simp]:
  "threshold (render E t dt s) = threshold (emission_pass E t dt s)"
  "mc_tri_vbo_N (render E t dt s) = mc_tri_vbo_N (emission_pass E t dt s)"
  "libc_rand (render E t dt s) = libc_rand (emission_pass E t dt s)"
  "off (render E t dt s) = off (emission_pass E t dt s)"
  "emitter_result (render E t dt s) = emitter_result (emission_pass E t dt s)"
  "particles_vbo_p (render E t dt s) = write_slot (reset_event E t s)"
  by (simp_all add: render_def write_slot_def)

lemma render_result:
  "anim_result (render E t dt s) =
     length (take (if emitter_result (emission_pass E t dt s) < particles_vbo_N
                   then particles_vbo_N - emitter_result (emission_pass E t dt s)
                   else particles_vbo_N)
       (anim_gs E t dt (map (particles_vbo s (read_slot (reset_event E t s)))
          [0..<min (particles_vbo_n (reset_event E t s)) particles_vbo_N])))"
  unfolding render_def
  by (simp add: animate_result [OF emission_pass_result_le] emission_pass_read_slot)

lemma render_n:
  "particles_vbo_n (render E t dt s) =
     anim_result (render E t dt s) + emitter_result (render E t dt s)"
  unfolding render_def
  by (simp add: animate_n [OF emission_pass_result_le])

lemma occupancy_le:
  "particles_vbo_n (render E t dt s) \<le> 2 * particles_vbo_N"
  "emitter_result (render E t dt s) < particles_vbo_N \<Longrightarrow>
     particles_vbo_n (render E t dt s) \<le> particles_vbo_N"
proof -
  have a: "anim_result (animate_particles E t dt (emission_pass E t dt s)) \<le> particles_vbo_N"
    by (rule animate_result_le(1) [OF emission_pass_result_le])
  have e: "emitter_result (emission_pass E t dt s) \<le> particles_vbo_N"
    by (rule emission_pass_result_le)
  have n: "particles_vbo_n (render E t dt s) =
      anim_result (animate_particles E t dt (emission_pass E t dt s))
        + emitter_result (emission_pass E t dt s)"
    unfolding render_def by (simp add: animate_n [OF emission_pass_result_le])
  show "particles_vbo_n (render E t dt s) \<le> 2 * particles_vbo_N"
    unfolding n using a e by linarith
  assume "emitter_result (render E t dt s) < particles_vbo_N"
  then have "emitter_result (emission_pass E t dt s) < particles_vbo_N" by simp
  then have "anim_result (animate_particles E t dt (emission_pass E t dt s))
          + emitter_result (emission_pass E t dt s) \<le> particles_vbo_N"
    by (rule animate_result_le(2) [OF emission_pass_result_le])
  then show "particles_vbo_n (render E t dt s) \<le> particles_vbo_N"
    unfolding n .
qed

section \<open>The claims\<close>

lemma reset_boundary: "(0::rat) < f64 (1 / 1000000)"
  by code_simp

lemma slot_index_reachable: "reachable E s \<Longrightarrow> particles_vbo_p s < 2"
  by (induction rule: reachable.induct) (simp_all add: init_def write_slot_def)

text \<open>
  Claim C5. At every point of every run the emission threshold lies between 1 and
  \<open>thresholdMax = 100000\<close>: after \<^verbatim>\<open>init\<close>, and in every frame of every run before the
  frame, after its reset, after its controller update and when the frame ends.
\<close>

theorem threshold_in_range:
  assumes "reachable E s"
  shows "1 \<le> threshold (init E mem) \<and> threshold (init E mem) \<le> 100000
    \<and> 1 \<le> threshold s \<and> threshold s \<le> 100000
    \<and> 1 \<le> threshold (reset_event E t s) \<and> threshold (reset_event E t s) \<le> 100000
    \<and> 1 \<le> threshold (emission_pass E t dt s) \<and> threshold (emission_pass E t dt s) \<le> 100000
    \<and> 1 \<le> threshold (render E t dt s) \<and> threshold (render E t dt s) \<le> 100000"
proof -
  have s: "threshold_ok s" using assms by (rule threshold_ok_reachable)
  have "threshold_ok (reset_event E t s)" using s by (rule threshold_ok_reset)
  moreover have "threshold_ok (emission_pass E t dt s)" using s by (rule threshold_ok_emission_pass)
  moreover have "threshold_ok (render E t dt s)" using s by (rule threshold_ok_render)
  ultimately show ?thesis
    using s threshold_ok_init [of E mem] unfolding threshold_ok_def by blast
qed

text \<open>The first frame of the example, from the state \<^verbatim>\<open>init\<close> leaves.\<close>

theorem threshold_in_range_witness:
  "reachable example_env example_start
    \<and> threshold example_start = 500
    \<and> 1 \<le> threshold (render example_env 0 (f32 (1 / 60)) example_start)
    \<and> threshold (render example_env 0 (f32 (1 / 60)) example_start) \<le> 100000"
proof -
  have r: "reachable example_env example_start"
    unfolding example_start_def by (rule reachable.start)
  show ?thesis
    using r threshold_in_range [OF r, where t = 0 and dt = "f32 (1 / 60)" and mem = example_mem]
    by (simp add: example_start_def init_def)
qed

text \<open>
  Claim C7. In a frame whose elapsed time is below the boundary the reset sets, in one
  step and before any stage runs, the occupancy to 0, the threshold to its initial value
  500 and the random number generator to the fixed seed 42; the rest of the frame is
  \<^verbatim>\<open>render\<close> on that state: the emitter draws its offset from threshold 500 and the first
  number after \<^verbatim>\<open>srand(42)\<close>, and the animation finds no particle.
\<close>

theorem reset_is_atomic:
  assumes "t < f64 (1 / 1000000)"
  shows "reset_event E t s =
      s\<lparr>particles_vbo_n := 0, threshold := 500, particles_vbo_p := 0, libc_rand := srand E 42\<rparr>
    \<and> particles_vbo_n (reset_event E t s) = 0
    \<and> threshold (reset_event E t s) = 500
    \<and> libc_rand (reset_event E t s) = srand E 42
    \<and> render E t dt s = animate_particles E t dt (adjust_threshold dt
        (emit_particles E (HPMC_vertices E t)
          (resize_mc_tri_vbo (int (length (HPMC_vertices E t)))
            (s\<lparr>particles_vbo_n := 0, threshold := 500, particles_vbo_p := 0,
               libc_rand := srand E 42\<rparr>))))
    \<and> off (render E t dt s) = emitter_offset (RAND_MAX E) 500 (fst (rand E (srand E 42)))
    \<and> anim_result (render E t dt s) = 0"
proof -
  have r: "reset_event E t s =
      s\<lparr>particles_vbo_n := 0, threshold := 500, particles_vbo_p := 0, libc_rand := srand E 42\<rparr>"
    using assms by (simp add: reset_event_def)
  have "render E t dt s = animate_particles E t dt (adjust_threshold dt
        (emit_particles E (HPMC_vertices E t)
          (resize_mc_tri_vbo (int (length (HPMC_vertices E t))) (reset_event E t s))))"
    by (simp add: render_def emission_pass_def Let_def)
  moreover have "off (render E t dt s) = emitter_offset (RAND_MAX E) 500 (fst (rand E (srand E 42)))"
    using assms by (simp add: emission_pass_off)
  moreover have "anim_result (render E t dt s) = 0"
    using assms by (simp add: render_result anim_gs_def)
  ultimately show ?thesis using assms r by simp
qed

text \<open>A reset at \<open>t = 0\<close>, from a state with threshold 7 and three particles.\<close>

theorem reset_is_atomic_witness:
  "(0::rat) < f64 (1 / 1000000)
    \<and> threshold (reset_event example_env 0 (example_start\<lparr>threshold := 7, particles_vbo_n := 3\<rparr>)) = 500
    \<and> particles_vbo_n (reset_event example_env 0 (example_start\<lparr>threshold := 7, particles_vbo_n := 3\<rparr>)) = 0
    \<and> libc_rand (reset_event example_env 0 (example_start\<lparr>threshold := 7, particles_vbo_n := 3\<rparr>)) = 42"
  using reset_is_atomic [OF reset_boundary, of example_env "example_start\<lparr>threshold := 7, particles_vbo_n := 3\<rparr>"]
    reset_boundary
  by (simp add: example_env_def)

text \<open>
  Claim C10. The reset also sets the index of the current buffer to 0, so that a frame in
  which it fires reads slot 0, writes slot 1 (slot 0 is left as it was) and hands slot 1
  to the next frame.
\<close>

theorem reset_selects_slot_0:
  assumes "t < f64 (1 / 1000000)"
  shows "particles_vbo_p (reset_event E t s) = 0
    \<and> read_slot (emission_pass E t dt s) = 0
    \<and> write_slot (emission_pass E t dt s) = 1
    \<and> particles_vbo (render E t dt s) 0 = particles_vbo s 0
    \<and> particles_vbo_p (render E t dt s) = 1"
proof -
  have p: "particles_vbo_p (reset_event E t s) = 0" using assms by simp
  have r: "read_slot (reset_event E t s) = 0" "write_slot (reset_event E t s) = 1"
    using p by (simp_all add: read_slot_def write_slot_def)
  have "particles_vbo (render E t dt s) 0 = particles_vbo s 0"
    using r by (simp add: render_def animate_vbo [OF emission_pass_result_le] emission_pass_vbo)
  then show ?thesis using p r by simp
qed

text \<open>A reset at \<open>t = 0\<close> while buffer 1 is current.\<close>

theorem reset_selects_slot_0_witness:
  "(0::rat) < f64 (1 / 1000000)
    \<and> read_slot (emission_pass example_env 0 (f32 (1 / 60)) (example_start\<lparr>particles_vbo_p := 1\<rparr>)) = 0
    \<and> write_slot (emission_pass example_env 0 (f32 (1 / 60)) (example_start\<lparr>particles_vbo_p := 1\<rparr>)) = 1"
  using reset_selects_slot_0 [OF reset_boundary, of example_env "example_start\<lparr>particles_vbo_p := 1\<rparr>" "f32 (1 / 60)"]
    reset_boundary
  by simp

subsection \<open>The triangle buffer\<close>

lemma resize_value:
  assumes "0 \<le> N" "N \<le> 1900000000" "mc_tri_vbo_N s < N"
  shows "mc_tri_vbo_N (resize_mc_tri_vbo N s) = trunc_int (f32 (f32 (11 / 10) * f32 (of_int N)))"
  using assms by (simp add: resize_mc_tri_vbo_def resize_in_range)

lemma resize_fits:
  assumes "0 \<le> N" "N \<le> 1900000000" "mc_tri_vbo_N s < N"
  shows "N \<le> mc_tri_vbo_N (resize_mc_tri_vbo N s)"
proof (cases "N = 0")
  case True
  then show ?thesis unfolding resize_value [OF assms]
    by (simp add: f32_def fround_def trunc_int_def)
next
  case False
  then have "1 \<le> N" using assms by simp
  then show ?thesis unfolding resize_value [OF assms] by (rule resize_ge)
qed

lemma resize_mono:
  assumes "0 \<le> N" "N \<le> 1900000000"
  shows "mc_tri_vbo_N s \<le> mc_tri_vbo_N (resize_mc_tri_vbo N s)"
proof (cases "mc_tri_vbo_N s < N")
  case False
  then show ?thesis by (simp add: resize_mc_tri_vbo_def)
next
  case True
  then show ?thesis using resize_fits [OF assms True] by simp
qed

lemma render_mc_mono:
  assumes "length (HPMC_vertices E t) \<le> 1900000000"
  shows "mc_tri_vbo_N s \<le> mc_tri_vbo_N (render E t dt s)"
proof -
  have "int (length (HPMC_vertices E t)) \<le> 1900000000" using assms by simp
  then show ?thesis by (simp add: emission_pass_mc resize_mono)
qed

lemma run_mc_mono:
  assumes "\<forall>f\<in>set fs. length (HPMC_vertices E (fst f)) \<le> 1900000000"
  shows "mc_tri_vbo_N s \<le> mc_tri_vbo_N (run E fs s)"
  using assms
proof (induction fs arbitrary: s)
  case Nil
  then show ?case by simp
next
  case (Cons f fs)
  obtain t dt where f: "f = (t, dt)" by (cases f)
  have "length (HPMC_vertices E t) \<le> 1900000000" using Cons.prems by (simp add: f)
  then have "mc_tri_vbo_N s \<le> mc_tri_vbo_N (render E t dt s)" by (rule render_mc_mono)
  also have "\<dots> \<le> mc_tri_vbo_N (run E fs (render E t dt s))"
    using Cons.prems by (intro Cons.IH) simp
  finally show ?case by (simp add: f)
qed

text \<open>
  Behind the range of \<^verbatim>\<open>GLsizei\<close> the capacity this model takes falls: two thousand million
  vertices leave the smallest \<^verbatim>\<open>int\<close> there.
\<close>

lemma resize_out_of_range:
  "mc_tri_vbo_N (resize_mc_tri_vbo 2000000000 (s\<lparr>mc_tri_vbo_N := 3000\<rparr>)) = - 2147483648"
proof -
  have "cast_GLsizei (f32 (f32 (11 / 10) * f32 (of_int 2000000000))) = - 2147483648"
    by code_simp
  then show ?thesis by (simp add: resize_mc_tri_vbo_def)
qed

lemma floor_11_10: "\<lfloor>11 / 10 * rat_of_int N\<rfloor> = 11 * N div 10"
proof -
  have "11 / 10 * rat_of_int N = of_int (11 * N) / of_int 10" by simp
  then show ?thesis by (simp only: floor_divide_of_int_eq)
qed

lemma floor_101_10: "\<lfloor>rat_of_int n * (101 / 10)\<rfloor> = 101 * n div 10"
proof -
  have "rat_of_int n * (101 / 10) = of_int (101 * n) / of_int 10" by simp
  then show ?thesis by (simp only: floor_divide_of_int_eq)
qed

lemma floor_half: "\<lfloor>rat_of_int n / 2\<rfloor> = n div 2"
proof -
  have "rat_of_int n / 2 = of_int n / of_int 2" by simp
  then show ?thesis by (simp only: floor_divide_of_int_eq)
qed




subsection \<open>Frames of the example\<close>

lemma no_reset_example: "\<not> (1 / 2 :: rat) < f64 (1 / 1000000)" "\<not> (1 :: rat) < f64 (1 / 1000000)"
  "\<not> (500 :: rat) < f64 (1 / 1000000)" "\<not> (195000 :: rat) < f64 (1 / 1000000)"
  by code_simp+

lemma no_reset: "\<not> t < f64 (1 / 1000000) \<Longrightarrow> reset_event E t s = s"
  by (simp add: reset_event_def)

lemmas example_no_reset =
  no_reset [OF no_reset_example(1)] no_reset [OF no_reset_example(2)]
  no_reset [OF no_reset_example(3)] no_reset [OF no_reset_example(4)]

lemma particles_per_sec_0: "particles_per_sec 0 dt = 0"
  by (simp add: particles_per_sec_def f32_def fround_def)

lemma rate_of_one: "particles_per_sec 1 (f32 (1 / 60)) < 3900"
  by code_simp

lemma rates_example:
  "4100 < particles_per_sec 500 (f32 (1 / 60))"
  "particles_per_sec 10 (f32 (1 / 60)) < 3900"
  "4100 < particles_per_sec 1 (f32 (1 / 5000))"
  "3900 \<le> particles_per_sec 1 (f32 (1 / 4000))"
  "particles_per_sec 1 (f32 (1 / 4000)) \<le> 4100"
  by code_simp+

lemma offsets_example:
  "emitter_offset 2147483647 500 1 = 0"
  "emitter_offset 2147483647 500 42 = 0"
  by code_simp+

text \<open>
  The rate the code measures is the quotient rounded to single precision. A quotient
  just below 3900, or just above 4100, is measured as 3900, or 4100, and the threshold
  stays.
\<close>

lemma rates_rounded:
  "spec_rate 390 (f32 (1 / 10)) < 3900" "particles_per_sec 390 (f32 (1 / 10)) = 3900"
  "4100 < spec_rate 164 (f32 (1 / 25))" "particles_per_sec 164 (f32 (1 / 25)) = 4100"
  by code_simp+

lemma growth_rate_rounded:
  "rat_of_int (particle_flow + 100) < spec_rate 164 (f32 (1 / 25))
   \<and> threshold (adjust_threshold (f32 (1 / 25)) (example_start\<lparr>emitter_result := 164\<rparr>)) = 500"
proof -
  have "threshold_ok (example_start\<lparr>emitter_result := 164\<rparr>)"
    by (simp add: threshold_ok_def example_start_def init_def)
  then have "threshold (adjust_threshold (f32 (1 / 25)) (example_start\<lparr>emitter_result := 164\<rparr>))
      = threshold (example_start\<lparr>emitter_result := 164\<rparr>)"
    using adjust_threshold_law [of "example_start\<lparr>emitter_result := 164\<rparr>" "f32 (1 / 25)"]
    by (simp add: threshold_ok_def rates_rounded)
  then show ?thesis
    using rates_rounded(3) by (simp add: particle_flow_def example_start_def init_def)
qed

lemma triangles_replicate: "triangles (replicate (3 * n) v) = replicate n (v, v, v)"
proof (induction n)
  case 0
  then show ?case by simp
next
  case (Suc n)
  have "replicate (3 * Suc n) v = v # v # v # replicate (3 * n) v"
    by (simp add: numeral_3_eq_3)
  then show ?case using Suc by simp
qed

lemma emitter_gs_all: "length (emitter_gs E offv 1 tris) = length tris"
  by (simp add: emitter_gs_def split_def)

lemma emitter_gs_first:
  "offv mod thr = 0 \<Longrightarrow> emitter_gs E offv thr [tri] = [spawn E tri]"
  by (simp add: emitter_gs_def)

lemma example_idle_frame:
  assumes "threshold_ok s"
  shows "threshold (render example_env (1 / 2) dt s) = max 1 (threshold s div 2)"
proof -
  have v: "HPMC_vertices example_env (1 / 2) = []" by (simp add: example_env_def)
  have e: "emitter_result (emission_pass example_env (1 / 2) dt s) = 0"
    by (simp add: emission_pass_result v emitter_gs_def)
  show ?thesis
    using emission_pass_threshold [OF assms, of example_env "1 / 2" dt]
    by (simp add: e particles_per_sec_0 example_no_reset)
qed

lemma example_start_ok: "threshold_ok example_start"
  unfolding example_start_def by (rule threshold_ok_init)

lemma example_starved_threshold: "threshold example_starved = 1 \<and> threshold_ok example_starved"
proof -
  let ?f = "render example_env (1 / 2) (f32 (1 / 60))"
  have t0: "threshold example_start = 500" by (simp add: example_start_def init_def)
  have k1: "threshold_ok (?f example_start)" using example_start_ok by (rule threshold_ok_render)
  have k2: "threshold_ok (?f (?f example_start))" using k1 by (rule threshold_ok_render)
  have k3: "threshold_ok (?f (?f (?f example_start)))" using k2 by (rule threshold_ok_render)
  have k4: "threshold_ok (?f (?f (?f (?f example_start))))" using k3 by (rule threshold_ok_render)
  have k5: "threshold_ok (?f (?f (?f (?f (?f example_start)))))"
    using k4 by (rule threshold_ok_render)
  have k6: "threshold_ok (?f (?f (?f (?f (?f (?f example_start))))))"
    using k5 by (rule threshold_ok_render)
  have k7: "threshold_ok (?f (?f (?f (?f (?f (?f (?f example_start)))))))"
    using k6 by (rule threshold_ok_render)
  have k8: "threshold_ok (?f (?f (?f (?f (?f (?f (?f (?f example_start))))))))"
    using k7 by (rule threshold_ok_render)
  have "threshold (?f (?f (?f (?f (?f (?f (?f (?f example_start)))))))) = 1"
    by (simp only: example_idle_frame [OF example_start_ok] example_idle_frame [OF k1]
          example_idle_frame [OF k2] example_idle_frame [OF k3] example_idle_frame [OF k4]
          example_idle_frame [OF k5] example_idle_frame [OF k6] example_idle_frame [OF k7] t0)
       simp
  then show ?thesis using k8 by (simp add: example_starved_def)
qed

lemma example_starved_reachable: "reachable example_env example_starved"
  unfolding example_starved_def example_start_def run.simps
  by (intro reachable.frame reachable.start)

lemma example_emits_all:
  "emitter_result (render example_env 500 dt example_starved) = 500"
proof -
  have v: "HPMC_vertices example_env 500 = replicate (3 * 500) 0" by (simp add: example_env_def)
  have t: "threshold (reset_event example_env 500 example_starved) = 1"
    using example_starved_threshold by (simp add: example_no_reset)
  have "length (triangles (HPMC_vertices example_env 500)) = 500"
    unfolding v triangles_replicate by simp
  then show ?thesis
    by (simp add: emission_pass_result example_no_reset example_starved_threshold emitter_gs_all
          particles_vbo_N_def)
qed

lemma example_emits_one:
  "emitter_result (render example_env 1 dt example_start) = 1"
proof -
  have v: "triangles (HPMC_vertices example_env 1) = [(0, 0, 0)]"
    by (simp add: example_env_def numeral_3_eq_3)
  have t: "threshold (reset_event example_env 1 example_start) = 500"
    by (simp add: example_no_reset example_start_def init_def)
  have o: "off (emission_pass example_env 1 dt example_start) = 0"
    by (simp add: emission_pass_off example_no_reset)
       (simp add: example_start_def init_def example_env_def offsets_example)
  show ?thesis
    using t by (simp add: emission_pass_result example_no_reset v o emitter_gs_first
                  particles_vbo_N_def)
qed

text \<open>With offset 0 and threshold 500 every 500th triangle emits a particle.\<close>

lemma filter_enumerate_length:
  "length (filter (\<lambda>(i, x). Q i) (enumerate n xs)) = length (filter Q [n..<n + length xs])"
proof (induction xs arbitrary: n)
  case Nil
  then show ?case by simp
next
  case (Cons x xs)
  have "[n..<n + length (x # xs)] = n # [Suc n..<Suc n + length xs]"
    by (simp add: upt_rec)
  then show ?case using Cons.IH [of "Suc n"] by simp
qed

lemma every_500th: "length (filter (\<lambda>i. (int i + 0) mod 500 = 0) [0..<k * 500]) = k"
proof (induction k)
  case 0
  then show ?case by simp
next
  case (Suc k)
  have q: "((int i + 0) mod 500 = 0) = (i mod 500 = 0)" for i :: nat
  proof -
    have "int i mod 500 = int (i mod 500)" by (simp add: of_nat_mod)
    then show ?thesis by simp
  qed
  have "[0..<k * 500 + 500] = [0..<k * 500] @ [k * 500..<k * 500 + 500]"
    by (rule upt_add_eq_append) simp
  moreover have "Suc k * 500 = k * 500 + 500" by simp
  ultimately have u: "[0..<Suc k * 500] = [0..<k * 500] @ [k * 500..<k * 500 + 500]"
    by (simp only:)
  have "k * 500 < k * 500 + 500" by simp
  then have h: "[k * 500..<k * 500 + 500] = (k * 500) # [Suc (k * 500)..<k * 500 + 500]"
    by (rule upt_conv_Cons)
  have "filter (\<lambda>i. i mod 500 = 0) [Suc (k * 500)..<k * 500 + 500] = []"
  proof (rule filter_False, rule ballI)
    fix i
    assume "i \<in> set [Suc (k * 500)..<k * 500 + 500]"
    then have "k * 500 < i" "i < k * 500 + 500" by simp_all
    then obtain j where j: "i = k * 500 + j" "0 < j" "j < 500"
      by (metis less_imp_add_positive nat_add_left_cancel_less)
    have "(k * 500 + j) mod 500 = j" using j(3) by simp
    then show "\<not> i mod 500 = 0" using j by simp
  qed
  then have "length (filter (\<lambda>i. i mod 500 = 0) [k * 500..<k * 500 + 500]) = 1"
    unfolding h by simp
  then show ?case using Suc unfolding u q by simp
qed

lemma emitter_gs_every_500th:
  "length (emitter_gs E 0 500 (replicate (k * 500) tri)) = k"
  unfolding emitter_gs_def length_map filter_enumerate_length
  using every_500th [of k] by simp

lemma example_emits_390:
  "emitter_result (render example_env 195000 dt example_start) = 390"
proof -
  have "HPMC_vertices example_env 195000 = replicate (3 * 195000) 0"
    by (simp add: example_env_def)
  then have "triangles (HPMC_vertices example_env 195000) = replicate 195000 (0, 0, 0)"
    by (simp only: triangles_replicate)
  moreover have "(195000 :: nat) = 390 * 500" by simp
  ultimately have v: "triangles (HPMC_vertices example_env 195000) = replicate (390 * 500) (0, 0, 0)"
    by (simp only:)
  have t: "threshold (reset_event example_env 195000 example_start) = 500"
    by (simp add: example_no_reset example_start_def init_def)
  have o: "off (emission_pass example_env 195000 dt example_start) = 0"
    by (simp add: emission_pass_off example_no_reset)
       (simp add: example_start_def init_def example_env_def offsets_example)
  show ?thesis
    unfolding render_fields emission_pass_result t o v
    by (simp only: length_take emitter_gs_every_500th) (simp add: particles_vbo_N_def)
qed

text \<open>
  Claim C3, as the code has it. In every frame of every run in which the rate that the
  code measures, \<^verbatim>\<open>particles_per_sec\<close> (the quotient of the emitted count and
  \<^verbatim>\<open>max(1e-5f,dt)\<close>, rounded to single precision), exceeds \<open>F + \<epsilon> = 4100\<close>, the next
  threshold is
  \<open>min 100000 \<lfloor>10.1 \<sqdot> threshold\<rfloor>\<close>: the cast to \<^verbatim>\<open>int\<close> drops the fraction of the product, it
  does not round up. From threshold 250, 500 emitted particles and \<open>dt = 1/60\<close> the next
  threshold is 2525.
\<close>

theorem threshold_growth:
  assumes "reachable E s"
  shows "(rat_of_int (particle_flow + 100) < particles_per_sec (emitter_result (render E t dt s)) dt
           \<longrightarrow> threshold (render E t dt s) =
                 min 100000 \<lfloor>rat_of_int (threshold (reset_event E t s)) * (101 / 10)\<rfloor>)
    \<and> threshold (adjust_threshold (f32 (1 / 60)) (s\<lparr>threshold := 250, emitter_result := 500\<rparr>))
        = 2525"
proof -
  have ok: "threshold_ok s" using assms by (rule threshold_ok_reachable)
  have a: "rat_of_int (particle_flow + 100) < particles_per_sec (emitter_result (render E t dt s)) dt
           \<longrightarrow> threshold (render E t dt s) =
                 min 100000 \<lfloor>rat_of_int (threshold (reset_event E t s)) * (101 / 10)\<rfloor>"
    unfolding floor_101_10 using emission_pass_threshold [OF ok, of E t dt]
    by (simp add: particle_flow_def)
  have "threshold (adjust_threshold (f32 (1 / 60)) (s\<lparr>threshold := 250, emitter_result := 500\<rparr>))
        = 2525"
    using adjust_threshold_law [of "s\<lparr>threshold := 250, emitter_result := 500\<rparr>" "f32 (1 / 60)"]
      rates_example(1)
    by simp
  then show ?thesis using a by simp
qed

text \<open>
  One particle in a frame of a 5000th of a second is a rate above 4100: threshold 500
  becomes 5050.
\<close>

theorem threshold_growth_witness:
  "reachable example_env example_start
    \<and> rat_of_int (particle_flow + 100)
        < particles_per_sec (emitter_result (render example_env 1 (f32 (1 / 5000)) example_start))
            (f32 (1 / 5000))
    \<and> threshold (reset_event example_env 1 example_start) = 500
    \<and> threshold (render example_env 1 (f32 (1 / 5000)) example_start) = 5050"
proof -
  have r: "reachable example_env example_start"
    unfolding example_start_def by (rule reachable.start)
  have rate: "rat_of_int (particle_flow + 100)
        < particles_per_sec (emitter_result (render example_env 1 (f32 (1 / 5000)) example_start))
            (f32 (1 / 5000))"
    unfolding example_emits_one using rates_example(3) by (simp add: particle_flow_def)
  have t: "threshold (reset_event example_env 1 example_start) = 500"
    by (simp add: example_no_reset example_start_def init_def)
  have "threshold (render example_env 1 (f32 (1 / 5000)) example_start) =
          min 100000 \<lfloor>rat_of_int (threshold (reset_event example_env 1 example_start)) * (101 / 10)\<rfloor>"
    using threshold_growth [OF r, THEN conjunct1] rate by (rule mp)
  then have "threshold (render example_env 1 (f32 (1 / 5000)) example_start) = 5050"
    unfolding t by simp
  then show ?thesis using r rate t by simp
qed

text \<open>
  The ceiling the claim states is not what the code computes. After eight frames without
  a triangle the threshold is 1; a frame with 500 triangles then emits 500 particles, a
  rate above 4100, and the next threshold is 10, whereas \<open>\<lceil>10.1\<rceil> = 11\<close>.
\<close>

theorem threshold_growth_ceil_counterexample:
  "reachable example_env example_starved
    \<and> rat_of_int (particle_flow + 100)
        < particles_per_sec (emitter_result (render example_env 500 (f32 (1 / 60)) example_starved))
            (f32 (1 / 60))
    \<and> threshold (reset_event example_env 500 example_starved) = 1
    \<and> threshold (render example_env 500 (f32 (1 / 60)) example_starved) = 10
    \<and> min 100000 \<lceil>rat_of_int (threshold (reset_event example_env 500 example_starved)) * (101 / 10)\<rceil>
        = 11
    \<and> threshold (render example_env 500 (f32 (1 / 60)) example_starved)
        \<noteq> min 100000
            \<lceil>rat_of_int (threshold (reset_event example_env 500 example_starved)) * (101 / 10)\<rceil>"
proof -
  have ok: "threshold_ok example_starved" using example_starved_threshold by simp
  have t: "threshold (reset_event example_env 500 example_starved) = 1"
    using example_starved_threshold by (simp add: example_no_reset)
  have rate: "4100 < particles_per_sec
      (emitter_result (emission_pass example_env 500 (f32 (1 / 60)) example_starved)) (f32 (1 / 60))"
    using example_emits_all [of "f32 (1 / 60)"] rates_example(1) by simp
  have "threshold (render example_env 500 (f32 (1 / 60)) example_starved) = 10"
    using emission_pass_threshold [OF ok, of example_env 500 "f32 (1 / 60)"] rate t by simp
  moreover have "\<lceil>rat_of_int 1 * (101 / 10)\<rceil> = 11" by (simp add: ceiling_unique)
  ultimately show ?thesis
    using example_starved_reachable rate t by (simp add: particle_flow_def)
qed

text \<open>
  Claim C4, as the code has it. In every frame of every run, with the rate
  \<^verbatim>\<open>particles_per_sec\<close> that the code measures (the quotient of the emitted count and
  \<^verbatim>\<open>max(1e-5f,dt)\<close>, rounded to single precision): below \<open>F - \<epsilon> = 3900\<close> the next threshold is
  \<open>max 1 \<lfloor>threshold / 2\<rfloor>\<close>, between \<open>F - \<epsilon>\<close> and \<open>F + \<epsilon>\<close> the threshold stays. From
  threshold 500, 10 emitted particles and \<open>dt = 1/60\<close> the next threshold is 250.
\<close>

theorem threshold_decay:
  assumes "reachable E s"
  shows "(particles_per_sec (emitter_result (render E t dt s)) dt < rat_of_int (particle_flow - 100)
           \<longrightarrow> threshold (render E t dt s) =
                 max 1 \<lfloor>rat_of_int (threshold (reset_event E t s)) / 2\<rfloor>)
    \<and> (rat_of_int (particle_flow - 100) \<le> particles_per_sec (emitter_result (render E t dt s)) dt
        \<and> particles_per_sec (emitter_result (render E t dt s)) dt \<le> rat_of_int (particle_flow + 100)
           \<longrightarrow> threshold (render E t dt s) = threshold (reset_event E t s))
    \<and> threshold (adjust_threshold (f32 (1 / 60)) (s\<lparr>threshold := 500, emitter_result := 10\<rparr>))
        = 250"
proof -
  have ok: "threshold_ok s" using assms by (rule threshold_ok_reachable)
  have a: "particles_per_sec (emitter_result (render E t dt s)) dt < rat_of_int (particle_flow - 100)
           \<longrightarrow> threshold (render E t dt s) =
                 max 1 \<lfloor>rat_of_int (threshold (reset_event E t s)) / 2\<rfloor>"
    unfolding floor_half using emission_pass_threshold [OF ok, of E t dt]
    by (simp add: particle_flow_def)
  have b: "rat_of_int (particle_flow - 100) \<le> particles_per_sec (emitter_result (render E t dt s)) dt
        \<and> particles_per_sec (emitter_result (render E t dt s)) dt \<le> rat_of_int (particle_flow + 100)
           \<longrightarrow> threshold (render E t dt s) = threshold (reset_event E t s)"
    using emission_pass_threshold [OF ok, of E t dt]
    by (simp add: particle_flow_def)
  have "threshold (adjust_threshold (f32 (1 / 60)) (s\<lparr>threshold := 500, emitter_result := 10\<rparr>))
        = 250"
    using adjust_threshold_law [of "s\<lparr>threshold := 500, emitter_result := 10\<rparr>" "f32 (1 / 60)"]
      rates_example(2)
    by simp
  then show ?thesis using a b by simp
qed

text \<open>
  From the state \<^verbatim>\<open>init\<close> leaves: a frame without a triangle halves the threshold 500, a
  frame that emits one particle in a 4000th of a second keeps it.
\<close>

theorem threshold_decay_witness:
  "reachable example_env example_start
    \<and> particles_per_sec (emitter_result (render example_env (1 / 2) (f32 (1 / 60)) example_start))
          (f32 (1 / 60)) < rat_of_int (particle_flow - 100)
    \<and> threshold (reset_event example_env (1 / 2) example_start) = 500
    \<and> threshold (render example_env (1 / 2) (f32 (1 / 60)) example_start) = 250
    \<and> rat_of_int (particle_flow - 100)
        \<le> particles_per_sec (emitter_result (render example_env 1 (f32 (1 / 4000)) example_start))
            (f32 (1 / 4000))
    \<and> particles_per_sec (emitter_result (render example_env 1 (f32 (1 / 4000)) example_start))
          (f32 (1 / 4000)) \<le> rat_of_int (particle_flow + 100)
    \<and> threshold (render example_env 1 (f32 (1 / 4000)) example_start) = 500"
proof -
  have r: "reachable example_env example_start"
    unfolding example_start_def by (rule reachable.start)
  have e0: "emitter_result (render example_env (1 / 2) (f32 (1 / 60)) example_start) = 0"
    by (simp add: emission_pass_result example_env_def emitter_gs_def)
  have low: "particles_per_sec (emitter_result (render example_env (1 / 2) (f32 (1 / 60)) example_start))
          (f32 (1 / 60)) < rat_of_int (particle_flow - 100)"
    unfolding e0 particles_per_sec_0 by (simp add: particle_flow_def)
  have t: "threshold (reset_event example_env (1 / 2) example_start) = 500"
    "threshold (reset_event example_env 1 example_start) = 500"
    by (simp_all add: example_no_reset example_start_def init_def)
  have "threshold (render example_env (1 / 2) (f32 (1 / 60)) example_start) =
          max 1 \<lfloor>rat_of_int (threshold (reset_event example_env (1 / 2) example_start)) / 2\<rfloor>"
    using threshold_decay [OF r, THEN conjunct1] low by (rule mp)
  then have h: "threshold (render example_env (1 / 2) (f32 (1 / 60)) example_start) = 250"
    unfolding t by simp
  have band: "rat_of_int (particle_flow - 100)
        \<le> particles_per_sec (emitter_result (render example_env 1 (f32 (1 / 4000)) example_start))
            (f32 (1 / 4000))
    \<and> particles_per_sec (emitter_result (render example_env 1 (f32 (1 / 4000)) example_start))
          (f32 (1 / 4000)) \<le> rat_of_int (particle_flow + 100)"
    unfolding example_emits_one using rates_example(4,5) by (simp add: particle_flow_def)
  have "threshold (render example_env 1 (f32 (1 / 4000)) example_start) =
          threshold (reset_event example_env 1 example_start)"
    using threshold_decay [OF r, THEN conjunct2, THEN conjunct1] band by (rule mp)
  then have k: "threshold (render example_env 1 (f32 (1 / 4000)) example_start) = 500"
    unfolding t .
  show ?thesis using r low t h band k by simp
qed

text \<open>
  With the quotient of the claim, which is not rounded, the law fails. From threshold
  500, a frame of a tenth of a second (the \<^verbatim>\<open>float\<close> nearest to it, a little above) that
  emits 390 particles has a quotient below 3900; the code measures 3900 and keeps the
  threshold, where the claim asks for 250.
\<close>

theorem threshold_decay_rounding_counterexample:
  "reachable example_env example_start
    \<and> emitter_result (render example_env 195000 (f32 (1 / 10)) example_start) = 390
    \<and> spec_rate (emitter_result (render example_env 195000 (f32 (1 / 10)) example_start))
          (f32 (1 / 10)) < rat_of_int (particle_flow - 100)
    \<and> threshold (reset_event example_env 195000 example_start) = 500
    \<and> threshold (render example_env 195000 (f32 (1 / 10)) example_start) = 500
    \<and> max 1 \<lfloor>rat_of_int (threshold (reset_event example_env 195000 example_start)) / 2\<rfloor> = 250
    \<and> threshold (render example_env 195000 (f32 (1 / 10)) example_start)
        \<noteq> max 1 \<lfloor>rat_of_int (threshold (reset_event example_env 195000 example_start)) / 2\<rfloor>"
proof -
  have r: "reachable example_env example_start"
    unfolding example_start_def by (rule reachable.start)
  have e: "emitter_result (render example_env 195000 (f32 (1 / 10)) example_start) = 390"
    by (rule example_emits_390)
  have e': "emitter_result (emission_pass example_env 195000 (f32 (1 / 10)) example_start) = 390"
    using e by simp
  have t: "threshold (reset_event example_env 195000 example_start) = 500"
    by (simp add: example_no_reset example_start_def init_def)
  have "threshold (emission_pass example_env 195000 (f32 (1 / 10)) example_start) = 500"
    unfolding emission_pass_threshold [OF example_start_ok] e' t rates_rounded by simp
  then have k: "threshold (render example_env 195000 (f32 (1 / 10)) example_start) = 500"
    by simp
  have s: "spec_rate 390 (f32 (1 / 10)) < rat_of_int (particle_flow - 100)"
    using rates_rounded(1) by (simp add: particle_flow_def)
  show ?thesis unfolding e t k using r s by simp
qed

text \<open>
  Claim C9 asks for \<open>0 \<le> off < threshold\<close> whatever \<^verbatim>\<open>rand\<close> returns. With a 31-bit
  \<^verbatim>\<open>RAND_MAX\<close> the code does not keep that bound: the conversion of \<^verbatim>\<open>rand()\<close> to
  \<^verbatim>\<open>float\<close> rounds each of the 64 largest values up to \<open>2\<^sup>3\<^sup>1\<close>, which is also the value of
  \<^verbatim>\<open>RAND_MAX+1.0f\<close>, so the quotient is 1 and the offset equals the threshold. One value
  further down the offset is below the threshold again.
\<close>

theorem emitter_offset_reaches_threshold:
  "emitter_offset 2147483647 500 2147483647 = 500
    \<and> emitter_offset 2147483647 500 2147483584 = 500
    \<and> emitter_offset 2147483647 500 2147483583 = 499"
  by code_simp

subsection \<open>What a frame writes\<close>

lemma tf_count: "fst (transform_feedback first room prims buf) = length (take room prims)"
  by (simp add: transform_feedback_def Let_def)

lemma tf_written:
  "map (snd (transform_feedback first room prims buf)) [first..<first + length (take room prims)]
     = take room prims"
  by (rule nth_equalityI) (simp_all add: transform_feedback_def Let_def)

lemma tf_before:
  "i < first \<Longrightarrow> snd (transform_feedback first room prims buf) i = buf i"
  by (simp add: transform_feedback_def Let_def)

lemma emitted_length: "emitter_result (emission_pass E t dt s) = length (emitted E t s)"
  by (simp add: emission_pass_result emission_pass_off emitted_def)

lemma survivors_length: "anim_result (render E t dt s) = length (survivors E t dt s)"
  by (simp add: render_result survivors_def emitted_length)

lemma emitted_le: "length (emitted E t s) \<le> particles_vbo_N"
  by (simp add: emitted_def)

lemma emission_pass_slot:
  "particles_vbo (emission_pass E t dt s) (write_slot (reset_event E t s)) =
     snd (transform_feedback 0 particles_vbo_N
            (emitter_gs E (off (emission_pass E t dt s)) (threshold (reset_event E t s))
               (triangles (HPMC_vertices E t)))
            (particles_vbo s (write_slot (reset_event E t s))))"
  by (simp add: emission_pass_vbo)

lemma emission_pass_front:
  "map (particles_vbo (emission_pass E t dt s) (write_slot (reset_event E t s)))
     [0..<length (emitted E t s)] = emitted E t s"
  unfolding emission_pass_slot emission_pass_off
  using tf_written [of 0 particles_vbo_N
      "emitter_gs E (emitter_offset (RAND_MAX E) (threshold (reset_event E t s))
         (fst (rand E (libc_rand (reset_event E t s))))) (threshold (reset_event E t s))
         (triangles (HPMC_vertices E t))"
      "particles_vbo s (write_slot (reset_event E t s))"]
  by (simp add: emitted_def)

lemma tf_after:
  "first + length (take room prims) \<le> i \<Longrightarrow>
     snd (transform_feedback first room prims buf) i = buf i"
  by (simp add: transform_feedback_def Let_def)

lemma render_slot:
  "particles_vbo (render E t dt s) (write_slot (reset_event E t s)) =
     snd (transform_feedback
            (if length (emitted E t s) < particles_vbo_N then length (emitted E t s) else 0)
            (if length (emitted E t s) < particles_vbo_N
             then particles_vbo_N - length (emitted E t s) else particles_vbo_N)
            (anim_gs E t dt (map (particles_vbo s (read_slot (reset_event E t s)))
               [0..<min (particles_vbo_n (reset_event E t s)) particles_vbo_N]))
            (particles_vbo (emission_pass E t dt s) (write_slot (reset_event E t s))))"
  unfolding render_def
  by (simp add: animate_vbo [OF emission_pass_result_le] emitted_length emission_pass_read_slot)

lemma render_front:
  assumes "length (emitted E t s) < particles_vbo_N"
  shows "map (particles_vbo (render E t dt s) (write_slot (reset_event E t s)))
     [0..<length (emitted E t s)] = emitted E t s"
proof -
  have "map (particles_vbo (render E t dt s) (write_slot (reset_event E t s)))
          [0..<length (emitted E t s)]
      = map (particles_vbo (emission_pass E t dt s) (write_slot (reset_event E t s)))
          [0..<length (emitted E t s)]"
    unfolding render_slot using assms by (intro map_cong) (simp_all add: tf_before)
  then show ?thesis by (simp add: emission_pass_front)
qed

lemma render_behind:
  assumes "length (emitted E t s) < particles_vbo_N"
  shows "map (particles_vbo (render E t dt s) (write_slot (reset_event E t s)))
     [length (emitted E t s)..<length (emitted E t s) + length (survivors E t dt s)]
     = survivors E t dt s"
proof -
  have r: "particles_vbo (render E t dt s) (write_slot (reset_event E t s)) =
     snd (transform_feedback (length (emitted E t s)) (particles_vbo_N - length (emitted E t s))
            (anim_gs E t dt (map (particles_vbo s (read_slot (reset_event E t s)))
               [0..<min (particles_vbo_n (reset_event E t s)) particles_vbo_N]))
            (particles_vbo (emission_pass E t dt s) (write_slot (reset_event E t s))))"
    unfolding render_slot using assms by simp
  have v: "survivors E t dt s = take (particles_vbo_N - length (emitted E t s))
       (anim_gs E t dt (map (particles_vbo s (read_slot (reset_event E t s)))
          [0..<min (particles_vbo_n (reset_event E t s)) particles_vbo_N]))"
    unfolding survivors_def using assms by simp
  show ?thesis unfolding r v by (rule tf_written)
qed

text \<open>
  When the new particles have filled the buffer, the survivors stand at its front, over
  the first of the new particles; the rest of the new particles follow.
\<close>

lemma render_over:
  assumes "\<not> length (emitted E t s) < particles_vbo_N"
  shows "map (particles_vbo (render E t dt s) (write_slot (reset_event E t s)))
     [0..<length (survivors E t dt s)] = survivors E t dt s"
    and "map (particles_vbo (render E t dt s) (write_slot (reset_event E t s)))
     [length (survivors E t dt s)..<particles_vbo_N]
     = drop (length (survivors E t dt s)) (emitted E t s)"
proof -
  let ?prims = "anim_gs E t dt (map (particles_vbo s (read_slot (reset_event E t s)))
               [0..<min (particles_vbo_n (reset_event E t s)) particles_vbo_N])"
  let ?buf = "particles_vbo (emission_pass E t dt s) (write_slot (reset_event E t s))"
  have r: "particles_vbo (render E t dt s) (write_slot (reset_event E t s)) =
     snd (transform_feedback 0 particles_vbo_N ?prims ?buf)"
    unfolding render_slot using assms by simp
  have v: "survivors E t dt s = take particles_vbo_N ?prims"
    unfolding survivors_def using assms by simp
  have len: "length (emitted E t s) = particles_vbo_N"
    using assms emitted_le [of E t s] by simp
  show "map (particles_vbo (render E t dt s) (write_slot (reset_event E t s)))
     [0..<length (survivors E t dt s)] = survivors E t dt s"
    unfolding r v using tf_written [of 0 particles_vbo_N ?prims ?buf] by simp
  have b: "?buf i = emitted E t s ! i" if "i < particles_vbo_N" for i
  proof -
    have "map ?buf [0..<length (emitted E t s)] ! i = emitted E t s ! i"
      by (simp only: emission_pass_front)
    then show ?thesis using that len by simp
  qed
  show "map (particles_vbo (render E t dt s) (write_slot (reset_event E t s)))
     [length (survivors E t dt s)..<particles_vbo_N]
     = drop (length (survivors E t dt s)) (emitted E t s)"
  proof (rule nth_equalityI)
    show "length (map (particles_vbo (render E t dt s) (write_slot (reset_event E t s)))
        [length (survivors E t dt s)..<particles_vbo_N])
      = length (drop (length (survivors E t dt s)) (emitted E t s))"
      by (simp add: len)
  next
    fix i
    assume "i < length (map (particles_vbo (render E t dt s) (write_slot (reset_event E t s)))
        [length (survivors E t dt s)..<particles_vbo_N])"
    then have i: "length (survivors E t dt s) + i < particles_vbo_N" by simp
    have "snd (transform_feedback 0 particles_vbo_N ?prims ?buf) (length (survivors E t dt s) + i)
        = ?buf (length (survivors E t dt s) + i)"
      by (rule tf_after) (simp add: v)
    then show "map (particles_vbo (render E t dt s) (write_slot (reset_event E t s)))
        [length (survivors E t dt s)..<particles_vbo_N] ! i
      = drop (length (survivors E t dt s)) (emitted E t s) ! i"
      using i by (simp add: r b len)
  qed
qed

lemma survivors_room:
  "length (survivors E t dt s) \<le> particles_vbo_N"
  "length (emitted E t s) < particles_vbo_N \<Longrightarrow>
     length (emitted E t s) + length (survivors E t dt s) \<le> particles_vbo_N"
  by (simp_all add: survivors_def min_le_iff_disj)

lemma render_content:
  "map (particles_vbo (render E t dt s) (particles_vbo_p (render E t dt s)))
     [0..<min (particles_vbo_n (render E t dt s)) particles_vbo_N]
   = (if length (emitted E t s) < particles_vbo_N then emitted E t s @ survivors E t dt s
      else survivors E t dt s @ drop (length (survivors E t dt s)) (emitted E t s))"
proof (cases "length (emitted E t s) < particles_vbo_N")
  case True
  have n: "particles_vbo_n (render E t dt s) = length (emitted E t s) + length (survivors E t dt s)"
    by (simp add: render_n emitted_length survivors_length)
  have m: "min (length (emitted E t s) + length (survivors E t dt s)) particles_vbo_N
      = length (emitted E t s) + length (survivors E t dt s)"
    using survivors_room(2) [OF True, of dt] by simp
  have "[0..<length (emitted E t s) + length (survivors E t dt s)] =
      [0..<length (emitted E t s)]
      @ [length (emitted E t s)..<length (emitted E t s) + length (survivors E t dt s)]"
    by (rule upt_add_eq_append) simp
  then show ?thesis
    unfolding n m using True by (simp add: render_front render_behind)
next
  case False
  have len: "length (emitted E t s) = particles_vbo_N"
    using False emitted_le [of E t s] by simp
  have n: "particles_vbo_n (render E t dt s) = length (emitted E t s) + length (survivors E t dt s)"
    by (simp add: render_n emitted_length survivors_length)
  have m: "min (length (emitted E t s) + length (survivors E t dt s)) particles_vbo_N
      = particles_vbo_N"
    by (simp add: len)
  obtain d where d: "particles_vbo_N = length (survivors E t dt s) + d"
    using survivors_room(1) [of E t dt s] by (metis le_Suc_ex)
  have "[0..<length (survivors E t dt s) + d] =
      [0..<length (survivors E t dt s)]
      @ [length (survivors E t dt s)..<length (survivors E t dt s) + d]"
    by (rule upt_add_eq_append) simp
  then have u: "[0..<particles_vbo_N] =
      [0..<length (survivors E t dt s)] @ [length (survivors E t dt s)..<particles_vbo_N]"
    using d by simp
  have "map (particles_vbo (render E t dt s) (write_slot (reset_event E t s))) [0..<particles_vbo_N]
      = survivors E t dt s @ drop (length (survivors E t dt s)) (emitted E t s)"
    by (subst u) (simp only: map_append render_over [OF False])
  then show ?thesis unfolding n m using False by simp
qed

lemma anim_gs_length: "length (anim_gs E t dt ps) \<le> length ps"
  by (simp add: anim_gs_def List.map_filter_def)

lemma survivors_le: "length (survivors E t dt s) \<le> particles_vbo_n (reset_event E t s)"
proof -
  let ?ps = "map (particles_vbo s (read_slot (reset_event E t s)))
      [0..<min (particles_vbo_n (reset_event E t s)) particles_vbo_N]"
  have "length (survivors E t dt s) \<le> length (anim_gs E t dt ?ps)"
    by (simp add: survivors_def)
  also have "\<dots> \<le> length ?ps" by (rule anim_gs_length)
  also have "\<dots> \<le> particles_vbo_n (reset_event E t s)" by simp
  finally show ?thesis .
qed

text \<open>
  Claim C1, as the code has it. When a frame ends, the number of particles stored for
  the next frame is the emitted count plus the survivor count. In a frame whose emitter
  has left room in the buffer (\<open>emitter_result < particles_vbo_N\<close>) and which animates no
  more particles than a buffer holds, the survivors stand in the buffer the frame wrote
  from element \<open>emitter_result\<close> on, right behind the new particles (which stay where the
  emitter put them), as far as the buffer has room, and the stored number is again at
  most what a buffer holds. There are at most as many survivors as the frame had
  particles to animate. The next frame animates the stored number of particles, unless
  its reset fires: then it animates none. Nothing is said about where the survivors stand
  in a frame whose emitter has filled the buffer.
\<close>

theorem occupancy_recurrence:
  "particles_vbo_n (render E t dt s)
      = emitter_result (render E t dt s) + anim_result (render E t dt s)
   \<and> (emitter_result (render E t dt s) < particles_vbo_N
       \<and> particles_vbo_n (emission_pass E t dt s) \<le> particles_vbo_N \<longrightarrow>
       map (particles_vbo (render E t dt s) (write_slot (emission_pass E t dt s)))
          [emitter_result (render E t dt s)
             ..<emitter_result (render E t dt s) + anim_result (render E t dt s)]
        = take (particles_vbo_N - emitter_result (render E t dt s))
            (anim_gs E t dt
               (map (particles_vbo (emission_pass E t dt s) (read_slot (emission_pass E t dt s)))
                  [0..<particles_vbo_n (emission_pass E t dt s)]))
       \<and> map (particles_vbo (render E t dt s) (write_slot (emission_pass E t dt s)))
            [0..<emitter_result (render E t dt s)]
          = map (particles_vbo (emission_pass E t dt s) (write_slot (emission_pass E t dt s)))
              [0..<emitter_result (render E t dt s)]
       \<and> particles_vbo_n (render E t dt s) \<le> particles_vbo_N)
   \<and> anim_result (render E t dt s) \<le> particles_vbo_n (emission_pass E t dt s)
   \<and> particles_vbo_n (emission_pass E t' dt' (render E t dt s))
      = (if t' < f64 (1 / 1000000) then 0 else particles_vbo_n (render E t dt s))"
proof -
  have a: "particles_vbo_n (render E t dt s)
      = emitter_result (render E t dt s) + anim_result (render E t dt s)"
    by (simp add: render_n)
  have b: "map (particles_vbo (render E t dt s) (write_slot (emission_pass E t dt s)))
        [emitter_result (render E t dt s)
           ..<emitter_result (render E t dt s) + anim_result (render E t dt s)]
      = take (particles_vbo_N - emitter_result (render E t dt s))
          (anim_gs E t dt
             (map (particles_vbo (emission_pass E t dt s) (read_slot (emission_pass E t dt s)))
                [0..<particles_vbo_n (emission_pass E t dt s)]))"
    if e: "emitter_result (render E t dt s) < particles_vbo_N"
      and n: "particles_vbo_n (emission_pass E t dt s) \<le> particles_vbo_N"
  proof -
    have l: "length (emitted E t s) < particles_vbo_N" using e by (simp add: emitted_length)
    have m: "min (particles_vbo_n (reset_event E t s)) particles_vbo_N
        = particles_vbo_n (reset_event E t s)"
      using n by simp
    have v: "survivors E t dt s = take (particles_vbo_N - length (emitted E t s))
       (anim_gs E t dt (map (particles_vbo s (read_slot (reset_event E t s)))
          [0..<particles_vbo_n (reset_event E t s)]))"
      unfolding survivors_def m using l by simp
    show ?thesis
      using render_behind [OF l, of dt]
      by (simp add: emitted_length survivors_length emission_pass_read_slot)
         (simp add: v)
  qed
  have c: "map (particles_vbo (render E t dt s) (write_slot (emission_pass E t dt s)))
        [0..<emitter_result (render E t dt s)]
      = map (particles_vbo (emission_pass E t dt s) (write_slot (emission_pass E t dt s)))
          [0..<emitter_result (render E t dt s)]"
    if e: "emitter_result (render E t dt s) < particles_vbo_N"
  proof -
    have l: "length (emitted E t s) < particles_vbo_N" using e by (simp add: emitted_length)
    show ?thesis by (simp add: emitted_length render_front [OF l] emission_pass_front)
  qed
  have d: "anim_result (render E t dt s) \<le> particles_vbo_n (emission_pass E t dt s)"
    using survivors_le [of E t dt s] by (simp add: survivors_length)
  have f: "particles_vbo_n (render E t dt s) \<le> particles_vbo_N"
    if e: "emitter_result (render E t dt s) < particles_vbo_N"
    using e by (rule occupancy_le(2))
  have g: "particles_vbo_n (emission_pass E t' dt' (render E t dt s))
      = (if t' < f64 (1 / 1000000) then 0 else particles_vbo_n (render E t dt s))"
    by simp
  show ?thesis
    using a b c d f g by blast
qed

lemma example_reset_frame:
  "emitter_result (render example_env 0 dt s) = 1" "anim_result (render example_env 0 dt s) = 0"
proof -
  have t: "threshold (reset_event example_env 0 s) = 500"
    "libc_rand (reset_event example_env 0 s) = 42"
    "particles_vbo_n (reset_event example_env 0 s) = 0"
    using reset_boundary by (simp_all add: example_env_def)
  have v: "triangles (HPMC_vertices example_env 0) = [(0, 0, 0)]" by (simp add: example_env_def)
  have r: "fst (rand example_env 42) = 42" "RAND_MAX example_env = 2147483647"
    by (simp_all add: example_env_def)
  have "emitted example_env 0 s = [spawn example_env (0, 0, 0)]"
    unfolding emitted_def t v r offsets_example
    by (simp add: emitter_gs_first particles_vbo_N_def)
  then show "emitter_result (render example_env 0 dt s) = 1"
    by (simp add: emitted_length)
  show "anim_result (render example_env 0 dt s) = 0"
    unfolding survivors_length survivors_def t by (simp add: anim_gs_def)
qed

subsection \<open>A frame with a survivor\<close>

lemma example_idle_occupancy:
  assumes "particles_vbo_n s = 0"
  shows "particles_vbo_n (render example_env (1 / 2) dt s) = 0"
proof -
  have v: "HPMC_vertices example_env (1 / 2) = []" by (simp add: example_env_def)
  have e: "emitter_result (render example_env (1 / 2) dt s) = 0"
    by (simp add: emission_pass_result v emitter_gs_def)
  have "length (survivors example_env (1 / 2) dt s) \<le> particles_vbo_n (reset_event example_env (1 / 2) s)"
    by (rule survivors_le)
  then have a: "anim_result (render example_env (1 / 2) dt s) = 0"
    using assms by (simp add: survivors_length example_no_reset)
  show ?thesis unfolding render_n e a by simp
qed

lemma example_starved_occupancy: "particles_vbo_n example_starved = 0"
proof -
  have "particles_vbo_n example_start = 0" by (simp add: example_start_def init_def)
  then show ?thesis
    unfolding example_starved_def run.simps
    by (intro example_idle_occupancy)
qed

lemma example_one_triangle:
  assumes "threshold s = 1"
  shows "emitted example_env 1 s = [2]"
proof -
  have v: "triangles (HPMC_vertices example_env 1) = [(0, 0, 0)]"
    by (simp add: example_env_def numeral_3_eq_3)
  have "emitter_gs example_env offv 1 [(0, 0, 0)] = [2]" for offv
    by (simp add: emitter_gs_first) (simp add: example_env_def)
  then show ?thesis
    unfolding emitted_def example_no_reset v assms by (simp add: particles_vbo_N_def)
qed

lemma example_loaded_state:
  "threshold example_loaded = 1" "particles_vbo_n example_loaded = 1"
  "map (particles_vbo example_loaded (read_slot example_loaded)) [0..<1] = [2]"
  "reachable example_env example_loaded"
proof -
  have ok: "threshold_ok example_starved" and t: "threshold example_starved = 1"
    using example_starved_threshold by simp_all
  have e: "emitted example_env 1 example_starved = [2]"
    using t by (rule example_one_triangle)
  have "length (survivors example_env 1 (f32 (1 / 60)) example_starved)
      \<le> particles_vbo_n (reset_event example_env 1 example_starved)"
    by (rule survivors_le)
  then have a: "survivors example_env 1 (f32 (1 / 60)) example_starved = []"
    by (simp add: example_no_reset example_starved_occupancy)
  have er: "emitter_result (emission_pass example_env 1 (f32 (1 / 60)) example_starved) = 1"
    by (simp add: emitted_length e)
  show "threshold example_loaded = 1"
    unfolding example_loaded_def render_fields emission_pass_threshold [OF ok] er
    using rate_of_one by (simp add: example_no_reset t)
  show n: "particles_vbo_n example_loaded = 1"
    unfolding example_loaded_def render_n
    by (simp add: emitted_length survivors_length e a)
  have "map (particles_vbo example_loaded (particles_vbo_p example_loaded))
      [0..<min (particles_vbo_n example_loaded) particles_vbo_N] = [2]"
    unfolding example_loaded_def render_content e a by (simp add: particles_vbo_N_def)
  then show "map (particles_vbo example_loaded (read_slot example_loaded)) [0..<1] = [2]"
    unfolding n read_slot_def by (simp add: particles_vbo_N_def)
  show "reachable example_env example_loaded"
    unfolding example_loaded_def by (intro reachable.frame example_starved_reachable)
qed

lemma example_survivor:
  "emitted example_env 1 example_loaded = [2]"
  "survivors example_env 1 dt example_loaded = [1]"
proof -
  show e: "emitted example_env 1 example_loaded = [2]"
    using example_loaded_state(1) by (rule example_one_triangle)
  have m: "min (particles_vbo_n example_loaded) particles_vbo_N = 1"
    by (simp add: example_loaded_state particles_vbo_N_def)
  have "anim_gs example_env 1 dt [2] = [1]"
    by (simp add: anim_gs_def List.map_filter_def example_env_def)
  then show "survivors example_env 1 dt example_loaded = [1]"
    unfolding survivors_def example_no_reset e m example_loaded_state(3)
    by (simp add: particles_vbo_N_def)
qed

text \<open>
  The frame that follows the nine frames of \<open>example_loaded\<close>, again with one triangle:
  it emits one particle, the particle of the frame before survives, and the survivor
  stands at element 1 of the buffer written.
\<close>

theorem occupancy_recurrence_witness:
  "emitter_result (render example_env 1 (f32 (1 / 60)) example_loaded) < particles_vbo_N
   \<and> particles_vbo_n (emission_pass example_env 1 (f32 (1 / 60)) example_loaded) \<le> particles_vbo_N
   \<and> emitter_result (render example_env 1 (f32 (1 / 60)) example_loaded) = 1
   \<and> anim_result (render example_env 1 (f32 (1 / 60)) example_loaded) = 1
   \<and> particles_vbo_n (render example_env 1 (f32 (1 / 60)) example_loaded) = 2
   \<and> map (particles_vbo (render example_env 1 (f32 (1 / 60)) example_loaded)
            (write_slot (emission_pass example_env 1 (f32 (1 / 60)) example_loaded))) [1..<2] = [1]
   \<and> particles_vbo_n
        (emission_pass example_env 1 (f32 (1 / 60))
           (render example_env 1 (f32 (1 / 60)) example_loaded)) = 2"
proof -
  note T = occupancy_recurrence [where E = example_env and t = 1 and dt = "f32 (1 / 60)"
      and s = example_loaded and t' = 1 and dt' = "f32 (1 / 60)"]
  have e: "emitter_result (render example_env 1 (f32 (1 / 60)) example_loaded) = 1"
    by (simp add: emitted_length example_survivor)
  have a: "anim_result (render example_env 1 (f32 (1 / 60)) example_loaded) = 1"
    by (simp add: survivors_length example_survivor)
  have k: "particles_vbo_n (emission_pass example_env 1 (f32 (1 / 60)) example_loaded) = 1"
    by (simp add: example_no_reset example_loaded_state)
  have r: "read_slot (emission_pass example_env 1 (f32 (1 / 60)) example_loaded)
      = read_slot example_loaded"
    by (simp add: example_no_reset)
  have p: "particles_vbo (emission_pass example_env 1 (f32 (1 / 60)) example_loaded)
        (read_slot example_loaded) = particles_vbo example_loaded (read_slot example_loaded)"
    using emission_pass_read_slot [of example_env 1 "f32 (1 / 60)" example_loaded]
    by (simp add: example_no_reset)
  have q: "take (particles_vbo_N - 1) (anim_gs example_env 1 (f32 (1 / 60)) [2]) = [1]"
    by (simp add: anim_gs_def List.map_filter_def example_env_def particles_vbo_N_def)
  have h: "emitter_result (render example_env 1 (f32 (1 / 60)) example_loaded) < particles_vbo_N
      \<and> particles_vbo_n (emission_pass example_env 1 (f32 (1 / 60)) example_loaded) \<le> particles_vbo_N"
    unfolding e k by (simp add: particles_vbo_N_def)
  have n: "particles_vbo_n (render example_env 1 (f32 (1 / 60)) example_loaded)
      = emitter_result (render example_env 1 (f32 (1 / 60)) example_loaded)
        + anim_result (render example_env 1 (f32 (1 / 60)) example_loaded)"
    by (rule T [THEN conjunct1])
  have "map (particles_vbo (render example_env 1 (f32 (1 / 60)) example_loaded)
            (write_slot (emission_pass example_env 1 (f32 (1 / 60)) example_loaded)))
          [emitter_result (render example_env 1 (f32 (1 / 60)) example_loaded)
             ..<emitter_result (render example_env 1 (f32 (1 / 60)) example_loaded)
                + anim_result (render example_env 1 (f32 (1 / 60)) example_loaded)]
        = take (particles_vbo_N - emitter_result (render example_env 1 (f32 (1 / 60)) example_loaded))
            (anim_gs example_env 1 (f32 (1 / 60))
               (map (particles_vbo (emission_pass example_env 1 (f32 (1 / 60)) example_loaded)
                       (read_slot (emission_pass example_env 1 (f32 (1 / 60)) example_loaded)))
                  [0..<particles_vbo_n (emission_pass example_env 1 (f32 (1 / 60)) example_loaded)]))"
    using T [THEN conjunct2, THEN conjunct1] h by blast
  then have w: "map (particles_vbo (render example_env 1 (f32 (1 / 60)) example_loaded)
            (write_slot (emission_pass example_env 1 (f32 (1 / 60)) example_loaded))) [1..<2] = [1]"
    unfolding e a k r p example_loaded_state(3) q one_add_one .
  have "particles_vbo_n
        (emission_pass example_env 1 (f32 (1 / 60))
           (render example_env 1 (f32 (1 / 60)) example_loaded))
      = (if 1 < f64 (1 / 1000000) then 0
         else particles_vbo_n (render example_env 1 (f32 (1 / 60)) example_loaded))"
    by (rule T [THEN conjunct2, THEN conjunct2, THEN conjunct2])
  then have m: "particles_vbo_n
        (emission_pass example_env 1 (f32 (1 / 60))
           (render example_env 1 (f32 (1 / 60)) example_loaded))
      = particles_vbo_n (render example_env 1 (f32 (1 / 60)) example_loaded)"
    using no_reset_example(2) by (simp only: if_False)
  show ?thesis
    using h w unfolding m n e a by simp
qed

text \<open>
  The recurrence does not reach across a reset. A first frame at \<open>t = 0\<close> emits one
  particle and stores occupancy 1; a second frame at \<open>t = 0\<close> resets and animates none.
\<close>

theorem occupancy_reset_counterexample:
  "emitter_result (render example_env 0 (f32 (1 / 60)) example_start)
     + anim_result (render example_env 0 (f32 (1 / 60)) example_start) = 1
   \<and> particles_vbo_n (render example_env 0 (f32 (1 / 60)) example_start) = 1
   \<and> particles_vbo_n
        (emission_pass example_env 0 (f32 (1 / 60))
           (render example_env 0 (f32 (1 / 60)) example_start)) = 0
   \<and> particles_vbo_n
        (emission_pass example_env 0 (f32 (1 / 60))
           (render example_env 0 (f32 (1 / 60)) example_start))
       \<noteq> emitter_result (render example_env 0 (f32 (1 / 60)) example_start)
          + anim_result (render example_env 0 (f32 (1 / 60)) example_start)"
proof -
  have e: "emitter_result (render example_env 0 (f32 (1 / 60)) example_start) = 1"
    and a: "anim_result (render example_env 0 (f32 (1 / 60)) example_start) = 0"
    by (rule example_reset_frame)+
  have n: "particles_vbo_n (render example_env 0 (f32 (1 / 60)) example_start) = 1"
    unfolding render_n e a by simp
  have z: "particles_vbo_n
        (emission_pass example_env 0 (f32 (1 / 60))
           (render example_env 0 (f32 (1 / 60)) example_start)) = 0"
    using reset_boundary by simp
  show ?thesis unfolding e a n z by simp
qed

text \<open>
  Claim C2, as the code has it. In every frame of every run the index of the current
  buffer is 0 or 1, the buffer read and the buffer written differ, the frame leaves the
  buffer it reads as it was, and when the frame ends the current buffer is the one it
  wrote, the other one than before. The next frame reads the buffer this frame wrote,
  unless its reset fires: then it reads buffer 0.
\<close>

theorem double_buffering:
  assumes "reachable E s"
  shows "particles_vbo_p s \<in> {0, 1}
    \<and> particles_vbo_p (emission_pass E t dt s) \<in> {0, 1}
    \<and> read_slot (emission_pass E t dt s) \<noteq> write_slot (emission_pass E t dt s)
    \<and> particles_vbo (render E t dt s) (read_slot (emission_pass E t dt s))
        = particles_vbo s (read_slot (emission_pass E t dt s))
    \<and> particles_vbo_p (render E t dt s) = write_slot (emission_pass E t dt s)
    \<and> particles_vbo_p (render E t dt s) = 1 - particles_vbo_p (emission_pass E t dt s)
    \<and> read_slot (emission_pass E t' dt' (render E t dt s))
        = (if t' < f64 (1 / 1000000) then 0 else write_slot (emission_pass E t dt s))"
proof -
  have p: "particles_vbo_p s < 2" using assms by (rule slot_index_reachable)
  then have q: "particles_vbo_p (reset_event E t s) < 2" by simp
  have d: "read_slot (reset_event E t s) \<noteq> write_slot (reset_event E t s)"
    by (rule slots_differ)
  have u: "particles_vbo (render E t dt s) (read_slot (reset_event E t s))
        = particles_vbo s (read_slot (reset_event E t s))"
    unfolding render_def using d
    by (simp add: animate_vbo [OF emission_pass_result_le] emission_pass_read_slot)
  have w: "write_slot (reset_event E t s) = 1 - particles_vbo_p (reset_event E t s)"
    using q unfolding write_slot_def by presburger
  have n: "read_slot (emission_pass E t' dt' (render E t dt s))
        = (if t' < f64 (1 / 1000000) then 0 else write_slot (emission_pass E t dt s))"
    by (simp add: read_slot_def)
  show ?thesis using p q d u w n by auto
qed

text \<open>Two frames without a reset: the second one reads buffer 1, which the first one wrote.\<close>

theorem double_buffering_witness:
  "reachable example_env example_start
    \<and> read_slot (emission_pass example_env 1 (f32 (1 / 60)) example_start) = 0
    \<and> write_slot (emission_pass example_env 1 (f32 (1 / 60)) example_start) = 1
    \<and> particles_vbo_p (render example_env 1 (f32 (1 / 60)) example_start) = 1
    \<and> read_slot (emission_pass example_env 1 (f32 (1 / 60))
         (render example_env 1 (f32 (1 / 60)) example_start)) = 1"
proof -
  have r: "reachable example_env example_start"
    unfolding example_start_def by (rule reachable.start)
  have p: "particles_vbo_p example_start = 0" by (simp add: example_start_def init_def)
  have w: "write_slot (emission_pass example_env 1 (f32 (1 / 60)) example_start) = 1"
    by (simp add: example_no_reset write_slot_def p)
  have d: "read_slot (emission_pass example_env 1 (f32 (1 / 60)) example_start) = 0"
    by (simp add: example_no_reset read_slot_def p)
  note T = double_buffering [OF r, where t = 1 and dt = "f32 (1 / 60)" and t' = 1
      and dt' = "f32 (1 / 60)"]
  have "particles_vbo_p (render example_env 1 (f32 (1 / 60)) example_start)
      = write_slot (emission_pass example_env 1 (f32 (1 / 60)) example_start)"
    by (rule T [THEN conjunct2, THEN conjunct2, THEN conjunct2, THEN conjunct2, THEN conjunct1])
  then have q: "particles_vbo_p (render example_env 1 (f32 (1 / 60)) example_start) = 1"
    unfolding w .
  have "read_slot (emission_pass example_env 1 (f32 (1 / 60))
         (render example_env 1 (f32 (1 / 60)) example_start))
      = (if 1 < f64 (1 / 1000000) then 0
         else write_slot (emission_pass example_env 1 (f32 (1 / 60)) example_start))"
    by (rule T [THEN conjunct2, THEN conjunct2, THEN conjunct2, THEN conjunct2, THEN conjunct2,
          THEN conjunct2])
  then have n: "read_slot (emission_pass example_env 1 (f32 (1 / 60))
         (render example_env 1 (f32 (1 / 60)) example_start)) = 1"
    unfolding w using no_reset_example(2) by (simp only: if_False)
  show ?thesis unfolding d w q n using r by simp
qed

text \<open>
  The buffer read is not always the buffer written one frame earlier: a first frame at
  \<open>t = 0\<close> writes buffer 1, a second frame at \<open>t = 0\<close> resets and reads buffer 0.
\<close>

theorem double_buffering_reset_counterexample:
  "reachable example_env (render example_env 0 (f32 (1 / 60)) example_start)
    \<and> write_slot (emission_pass example_env 0 (f32 (1 / 60)) example_start) = 1
    \<and> read_slot (emission_pass example_env 0 (f32 (1 / 60))
         (render example_env 0 (f32 (1 / 60)) example_start)) = 0
    \<and> read_slot (emission_pass example_env 0 (f32 (1 / 60))
         (render example_env 0 (f32 (1 / 60)) example_start))
        \<noteq> write_slot (emission_pass example_env 0 (f32 (1 / 60)) example_start)"
proof -
  have "reachable example_env (render example_env 0 (f32 (1 / 60)) example_start)"
    unfolding example_start_def by (intro reachable.frame reachable.start)
  then show ?thesis
    using reset_boundary by (simp add: read_slot_def write_slot_def)
qed

subsection \<open>Runs that look the same\<close>

lemma same_view_after_reset:
  "t < f64 (1 / 1000000) \<Longrightarrow> same_view (reset_event E t a) (reset_event E t b)"
  by (simp add: same_view_def)

lemma same_view_reset:
  assumes "same_view a b"
  shows "same_view (reset_event E t a) (reset_event E t b)"
proof (cases "t < f64 (1 / 1000000)")
  case True
  then show ?thesis by (rule same_view_after_reset)
next
  case False
  then have "reset_event E t a = a" "reset_event E t b = b" by (simp_all add: reset_event_def)
  then show ?thesis using assms by simp
qed

lemma emitted_cong:
  assumes "same_view (reset_event E t a) (reset_event E t b)"
  shows "emitted E t a = emitted E t b"
  using assms by (simp only: emitted_def same_view_def)

lemma survivors_cong:
  assumes "same_view (reset_event E t a) (reset_event E t b)"
  shows "survivors E t dt a = survivors E t dt b"
proof -
  have "map (particles_vbo (reset_event E t a) (particles_vbo_p (reset_event E t a)))
        [0..<min (particles_vbo_n (reset_event E t a)) particles_vbo_N]
      = map (particles_vbo (reset_event E t b) (particles_vbo_p (reset_event E t b)))
        [0..<min (particles_vbo_n (reset_event E t b)) particles_vbo_N]"
    using assms unfolding same_view_def by blast
  then have "map (particles_vbo a (read_slot (reset_event E t a)))
        [0..<min (particles_vbo_n (reset_event E t a)) particles_vbo_N]
      = map (particles_vbo b (read_slot (reset_event E t b)))
        [0..<min (particles_vbo_n (reset_event E t b)) particles_vbo_N]"
    by (simp only: reset_event_fields(6) read_slot_def)
  then show ?thesis
    unfolding survivors_def emitted_cong [OF assms] by simp
qed

lemma adjust_threshold_cong:
  "emitter_result a = emitter_result b \<Longrightarrow> threshold a = threshold b \<Longrightarrow>
     threshold (adjust_threshold dt a) = threshold (adjust_threshold dt b)"
  by (simp add: adjust_threshold_def)

lemma emission_pass_threshold_cong:
  assumes "same_view (reset_event E t a) (reset_event E t b)"
  shows "threshold (emission_pass E t dt a) = threshold (emission_pass E t dt b)"
proof -
  have e: "emitter_result (emission_pass E t dt a) = emitter_result (emission_pass E t dt b)"
    by (simp add: emitted_length emitted_cong [OF assms])
  have th: "threshold (reset_event E t a) = threshold (reset_event E t b)"
    using assms by (simp only: same_view_def)
  show ?thesis
    unfolding emission_pass_def Let_def
    by (rule adjust_threshold_cong) (use e th in \<open>simp_all add: emission_pass_def Let_def\<close>)
qed

lemma same_view_render:
  assumes "same_view (reset_event E t a) (reset_event E t b)"
  shows "same_view (render E t dt a) (render E t dt b)"
proof -
  have v: "threshold (reset_event E t a) = threshold (reset_event E t b)"
    "particles_vbo_p (reset_event E t a) = particles_vbo_p (reset_event E t b)"
    "libc_rand (reset_event E t a) = libc_rand (reset_event E t b)"
    using assms by (simp_all only: same_view_def)
  have "particles_vbo_n (render E t dt a) = particles_vbo_n (render E t dt b)"
    by (simp add: render_n emitted_length survivors_length emitted_cong [OF assms]
          survivors_cong [OF assms])
  moreover have "libc_rand (render E t dt a) = libc_rand (render E t dt b)"
    using v by (simp add: emission_pass_rand)
  moreover have "particles_vbo_p (render E t dt a) = particles_vbo_p (render E t dt b)"
    using v by (simp add: write_slot_def)
  moreover have "threshold (render E t dt a) = threshold (render E t dt b)"
    by (simp add: emission_pass_threshold_cong [OF assms])
  moreover have "map (particles_vbo (render E t dt a) (particles_vbo_p (render E t dt a)))
        [0..<min (particles_vbo_n (render E t dt a)) particles_vbo_N]
      = map (particles_vbo (render E t dt b) (particles_vbo_p (render E t dt b)))
        [0..<min (particles_vbo_n (render E t dt b)) particles_vbo_N]"
    unfolding render_content by (simp add: emitted_cong [OF assms] survivors_cong [OF assms])
  ultimately show ?thesis unfolding same_view_def by blast
qed

lemma observe_cong:
  "same_view a b \<Longrightarrow> observe E fs a = observe E fs b"
proof (induction fs arbitrary: a b)
  case Nil
  then show ?case by simp
next
  case (Cons f fs)
  obtain t dt where f: "f = (t, dt)" by (cases f)
  have r: "same_view (reset_event E t a) (reset_event E t b)"
    using Cons.prems by (rule same_view_reset)
  have s: "same_view (render E t dt a) (render E t dt b)" using r by (rule same_view_render)
  have "threshold (reset_event E t a) = threshold (reset_event E t b)"
    using r by (simp only: same_view_def)
  moreover have "emitter_result (render E t dt a) = emitter_result (render E t dt b)"
    by (simp add: emitted_length emitted_cong [OF r])
  moreover have "anim_result (render E t dt a) = anim_result (render E t dt b)"
    by (simp add: survivors_length survivors_cong [OF r])
  moreover have "threshold (render E t dt a) = threshold (render E t dt b)"
    using s by (simp only: same_view_def)
  ultimately show ?case using Cons.IH [OF s] by (simp add: f)
qed



end
